theory Spec2Isabelle
  imports Main
begin

section \<open>python-add-module-as-layer: the Lambda handler and its collaborators\<close>

text \<open>
  The repository is one Python function, \<open>lambda_handler(event, context)\<close>. It reads
  \<open>ModuleName\<close> and \<open>CustomLayerName\<close> from the event, prepares two scratch directories
  under \<open>/tmp\<close>, runs \<open>pip download\<close>, picks the wheel file, copies every entry of the
  wheel into a new zip archive under a site-packages prefix, publishes the new archive as
  a Lambda layer and removes its scratch files.

  The handler is embedded as a function from an environment (the collaborators the
  handler calls but does not contain: the Python runtime version, the clock, pip and the
  boto3 Lambda client), the event and the world (the scratch file system and the log of
  publish calls) to an outcome and the world it leaves behind. An outcome is either the
  dictionary the handler returns or the exception that leaves it unhandled.
\<close>

subsection \<open>Python values: exceptions, the response dictionary\<close>

datatype pyerror =
    KeyError string
  | IndexError
  | FileExistsError string
  | FileNotFoundError string
  | NotADirectoryError string
  | IsADirectoryError string
  | DirectoryNotEmpty string
  | BadZipFile string

text \<open>
  The dictionary the handler returns: \<open>StatusCode\<close> and \<open>Payload\<close> are always present,
  \<open>FunctionError\<close> only on the error returns.
\<close>

record response =
  StatusCode :: nat
  FunctionError :: "string option"
  Payload :: string

datatype outcome = Returned response | Raised pyerror

subsection \<open>Strings: \<open>str.split\<close>, \<open>str.lower\<close>, \<open>str.endswith\<close>, \<open>str.replace\<close>, \<open>str(int)\<close>\<close>

text \<open>
  \<open>s.split(sep)\<close> with a one-character separator: the text between consecutive
  separators, empty fields included; the result is never the empty list.
\<close>

fun split_from :: "char \<Rightarrow> string \<Rightarrow> string \<Rightarrow> string list" where
  "split_from sep cur [] = [rev cur]"
| "split_from sep cur (c # cs) =
     (if c = sep then rev cur # split_from sep [] cs else split_from sep (c # cur) cs)"

definition split :: "string \<Rightarrow> char \<Rightarrow> string list" where
  "split s sep = split_from sep [] s"

text \<open>
  \<open>str.lower\<close>: the letters A to Z are mapped to a to z. Python lowers other
  alphabets too, but no character outside A to Z lowers to one of \<open>.\<close>, \<open>w\<close>, \<open>h\<close>,
  \<open>l\<close>, which is all the handler's suffix test looks at.
\<close>

definition lower_char :: "char \<Rightarrow> char" where
  "lower_char c =
     (case map_of (zip ''ABCDEFGHIJKLMNOPQRSTUVWXYZ'' ''abcdefghijklmnopqrstuvwxyz'') c of
        Some l \<Rightarrow> l
      | None \<Rightarrow> c)"

definition lower :: "string \<Rightarrow> string" where
  "lower s = map lower_char s"

definition endswith :: "string \<Rightarrow> string \<Rightarrow> bool" where
  "endswith s suf = (length suf \<le> length s \<and> drop (length s - length suf) s = suf)"

text \<open>\<open>s.replace(old, new)\<close> for a one-character \<open>old\<close>.\<close>

definition replace :: "string \<Rightarrow> char \<Rightarrow> string \<Rightarrow> string" where
  "replace s old new = concat (map (\<lambda>c. if c = old then new else [c]) s)"

definition digit_char :: "nat \<Rightarrow> char" where
  "digit_char d = ''0123456789'' ! d"

text \<open>\<open>str(n)\<close> for a non-negative integer: its decimal digits.\<close>

function str_nat :: "nat \<Rightarrow> string" where
  "str_nat n = (if n < 10 then [digit_char n] else str_nat (n div 10) @ [digit_char (n mod 10)])"
  by pat_completeness auto
termination
  by (relation "measure id") auto

definition backslash_n :: string where
  "backslash_n = [CHR 0x5C, CHR ''n'']"

definition quoted :: "string \<Rightarrow> string" where
  "quoted s = [CHR 0x27] @ s @ [CHR 0x27]"

subsection \<open>The zip archive library (\<open>zipfile\<close>)\<close>

text \<open>
  A \<open>ZipInfo\<close> object with the attributes the handler and the library touch:
  the entry name, the modification time, the compression method and the external
  attribute word, whose upper 16 bits are the Unix mode with the permission bits.
  An archive, as \<open>ZipFile\<close> sees it, is the list of its entries in central-directory
  order, each a \<open>ZipInfo\<close> with the decoded bytes of the entry.
\<close>

record zipinfo =
  filename :: string
  date_time :: "nat \<times> nat \<times> nat \<times> nat \<times> nat \<times> nat"
  compress_type :: nat
  external_attr :: nat

type_synonym zentry = "zipinfo \<times> string"
type_synonym archive = "zentry list"

definition infolist :: "archive \<Rightarrow> zipinfo list" where
  "infolist a = map fst a"

text \<open>
  \<open>ZipFile.read(name)\<close> with a string argument goes through \<open>getinfo(name)\<close>, that
  is through the dictionary \<open>NameToInfo\<close>. The dictionary is filled in central-directory
  order with \<open>NameToInfo[x.filename] = x\<close>, so a name that occurs more than once
  resolves to its last entry. A name that does not occur raises \<open>KeyError\<close>.
\<close>

definition zip_read :: "archive \<Rightarrow> string \<Rightarrow> pyerror + string" where
  "zip_read a name =
     (case find (\<lambda>e. filename (fst e) = name) (rev a) of
        None \<Rightarrow> Inl (KeyError name)
      | Some e \<Rightarrow> Inr (snd e))"

text \<open>
  \<open>ZipFile.writestr(zinfo, data)\<close> with a \<open>ZipInfo\<close> argument appends one entry that
  carries the attributes of \<open>zinfo\<close> and the bytes \<open>data\<close>. One attribute is not taken
  as it is: on its way \<open>writestr\<close> calls the library's \<open>_open_to_write\<close>, which runs
  \<open>if not zinfo.external_attr: zinfo.external_attr = 0o600 << 16\<close>, so an external
  attribute word of zero is replaced by the mode \<open>rw-------\<close> (the number 25165824).
  A name already present in the output only triggers a warning.
\<close>

definition open_to_write :: "zipinfo \<Rightarrow> zipinfo" where
  "open_to_write zinfo =
     (if external_attr zinfo = 0 then zinfo\<lparr>external_attr := 25165824\<rparr> else zinfo)"

definition writestr :: "archive \<Rightarrow> zipinfo \<Rightarrow> string \<Rightarrow> archive" where
  "writestr out zinfo data = out @ [(open_to_write zinfo, data)]"

subsection \<open>The relocation loop (lines 177 to 183)\<close>

text \<open>
  \<^verbatim>\<open>
  for curZipInfo in InZipFile.infolist():
      CurrentFileName = curZipInfo.filename
      DataBuffer = InZipFile.read(CurrentFileName)
      NewFileName = ExtendedPythonModulePathName + r"/" + CurrentFileName
      curZipInfo.filename = NewFileName
      OutZipFile.writestr(curZipInfo, DataBuffer)
  \<close>
  The loop renames the \<open>ZipInfo\<close> objects of the input archive in place. The reads
  are not affected: \<open>NameToInfo\<close> keeps the original names as keys, every object is
  visited once, and its name is taken before it is changed.
\<close>

fun relocate_loop :: "archive \<Rightarrow> string \<Rightarrow> zipinfo list \<Rightarrow> archive \<Rightarrow> pyerror + archive" where
  "relocate_loop InZipFile prefix [] OutZipFile = Inr OutZipFile"
| "relocate_loop InZipFile prefix (curZipInfo # rest) OutZipFile =
     (let CurrentFileName = filename curZipInfo in
      case zip_read InZipFile CurrentFileName of
        Inl e \<Rightarrow> Inl e
      | Inr DataBuffer \<Rightarrow>
          let NewFileName = prefix @ ''/'' @ CurrentFileName in
          relocate_loop InZipFile prefix rest
            (writestr OutZipFile (curZipInfo\<lparr>filename := NewFileName\<rparr>) DataBuffer))"

definition relocate :: "archive \<Rightarrow> string \<Rightarrow> pyerror + archive" where
  "relocate InZipFile prefix = relocate_loop InZipFile prefix (infolist InZipFile) []"

text \<open>What one round of the loop stores for a \<open>ZipInfo\<close>: the renamed object, as \<open>writestr\<close> keeps it.\<close>

definition relocated_info :: "string \<Rightarrow> zipinfo \<Rightarrow> zipinfo" where
  "relocated_info prefix zi = open_to_write (zi\<lparr>filename := prefix @ ''/'' @ filename zi\<rparr>)"

subsection \<open>The scratch file system (\<open>os\<close>, \<open>shutil\<close>, \<open>open\<close>)\<close>

text \<open>
  A file holds either bytes that are not a zip archive or the bytes of the zip archive
  with the given entries. The file system is a list of absolute paths with their nodes;
  the order of the list is the order in which a directory lists its entries. Paths are
  compared as strings once trailing slashes are removed (the handler names the pip cache
  \<open>/tmp/pipcachedir/\<close>); the empty path is the root directory.
\<close>

datatype filedata = Bytes string | ZipBytes archive

datatype node = Dir | File filedata

type_synonym filesystem = "(string \<times> node) list"

definition norm_path :: "string \<Rightarrow> string" where
  "norm_path p = rev (dropWhile (\<lambda>c. c = CHR ''/'') (rev p))"

definition dirname :: "string \<Rightarrow> string" where
  "dirname p = rev (drop 1 (dropWhile (\<lambda>c. c \<noteq> CHR ''/'') (rev p)))"

definition basename :: "string \<Rightarrow> string" where
  "basename p = rev (takeWhile (\<lambda>c. c \<noteq> CHR ''/'') (rev p))"

definition lookup :: "filesystem \<Rightarrow> string \<Rightarrow> node option" where
  "lookup fs p = (if norm_path p = [] then Some Dir else map_of fs (norm_path p))"

definition os_path_exists :: "filesystem \<Rightarrow> string \<Rightarrow> bool" where
  "os_path_exists fs p = (lookup fs p \<noteq> None)"

definition is_file :: "node \<Rightarrow> bool" where
  "is_file n = (case n of File _ \<Rightarrow> True | Dir \<Rightarrow> False)"

definition under :: "string \<Rightarrow> string \<Rightarrow> bool" where
  "under d q = (take (length (norm_path d) + 1) q = norm_path d @ ''/'')"

definition unlink :: "filesystem \<Rightarrow> string \<Rightarrow> filesystem" where
  "unlink fs p = filter (\<lambda>e. fst e \<noteq> norm_path p) fs"

definition store :: "filesystem \<Rightarrow> string \<Rightarrow> node \<Rightarrow> filesystem" where
  "store fs p n =
     (if map_of fs (norm_path p) = None then fs @ [(norm_path p, n)]
      else map (\<lambda>e. if fst e = norm_path p then (fst e, n) else e) fs)"

text \<open>\<open>os.mkdir(p)\<close>: the path must be new and its parent a directory.\<close>

definition os_mkdir :: "filesystem \<Rightarrow> string \<Rightarrow> pyerror + filesystem" where
  "os_mkdir fs p =
     (if lookup fs p \<noteq> None then Inl (FileExistsError p)
      else case lookup fs (dirname (norm_path p)) of
        None \<Rightarrow> Inl (FileNotFoundError p)
      | Some (File _) \<Rightarrow> Inl (NotADirectoryError p)
      | Some Dir \<Rightarrow> Inr (store fs p Dir))"

text \<open>
  Lines 80 to 82 and 89 to 91:
  \<^verbatim>\<open>
  for root, dirs, files in os.walk(TmpModuleFolderName):
      for file in files:
          os.remove(os.path.join(root, file))
  \<close>
  Every file below the directory walked, at any depth, is removed; the directories
  stay. \<open>os.walk\<close> yields nothing when its argument is not a directory.
\<close>

definition remove_files_below :: "filesystem \<Rightarrow> string \<Rightarrow> filesystem" where
  "remove_files_below fs walk_top =
     (if lookup fs walk_top = Some Dir
      then filter (\<lambda>e. \<not> (is_file (snd e) \<and> under walk_top (fst e))) fs
      else fs)"

definition os_listdir :: "filesystem \<Rightarrow> string \<Rightarrow> pyerror + string list" where
  "os_listdir fs p =
     (case lookup fs p of
        None \<Rightarrow> Inl (FileNotFoundError p)
      | Some (File _) \<Rightarrow> Inl (NotADirectoryError p)
      | Some Dir \<Rightarrow> Inr (map (\<lambda>e. basename (fst e)) (filter (\<lambda>e. dirname (fst e) = norm_path p) fs)))"

definition os_remove :: "filesystem \<Rightarrow> string \<Rightarrow> pyerror + filesystem" where
  "os_remove fs p =
     (case lookup fs p of
        None \<Rightarrow> Inl (FileNotFoundError p)
      | Some Dir \<Rightarrow> Inl (IsADirectoryError p)
      | Some (File _) \<Rightarrow> Inr (unlink fs p))"

definition os_rmdir :: "filesystem \<Rightarrow> string \<Rightarrow> pyerror + filesystem" where
  "os_rmdir fs p =
     (case lookup fs p of
        None \<Rightarrow> Inl (FileNotFoundError p)
      | Some (File _) \<Rightarrow> Inl (NotADirectoryError p)
      | Some Dir \<Rightarrow>
          if filter (\<lambda>e. dirname (fst e) = norm_path p) fs \<noteq> [] then Inl (DirectoryNotEmpty p)
          else Inr (unlink fs p))"

definition shutil_rmtree :: "filesystem \<Rightarrow> string \<Rightarrow> pyerror + filesystem" where
  "shutil_rmtree fs p =
     (case lookup fs p of
        None \<Rightarrow> Inl (FileNotFoundError p)
      | Some (File _) \<Rightarrow> Inl (NotADirectoryError p)
      | Some Dir \<Rightarrow> Inr (filter (\<lambda>e. \<not> under p (fst e)) (unlink fs p)))"

text \<open>Opening a file for reading and reading all of it.\<close>

definition read_file :: "filesystem \<Rightarrow> string \<Rightarrow> pyerror + filedata" where
  "read_file fs p =
     (case lookup fs p of
        None \<Rightarrow> Inl (FileNotFoundError p)
      | Some Dir \<Rightarrow> Inl (IsADirectoryError p)
      | Some (File d) \<Rightarrow> Inr d)"

text \<open>Opening a file for writing creates or truncates it; its directory must exist.\<close>

definition write_file :: "filesystem \<Rightarrow> string \<Rightarrow> filedata \<Rightarrow> pyerror + filesystem" where
  "write_file fs p d =
     (case lookup fs p of
        Some Dir \<Rightarrow> Inl (IsADirectoryError p)
      | _ \<Rightarrow>
          (case lookup fs (dirname (norm_path p)) of
             None \<Rightarrow> Inl (FileNotFoundError p)
           | Some (File _) \<Rightarrow> Inl (NotADirectoryError p)
           | Some Dir \<Rightarrow> Inr (store fs p (File d))))"

text \<open>\<open>zipfile.ZipFile(p, 'r')\<close>: the file must hold a zip archive.\<close>

definition open_zip_read :: "filesystem \<Rightarrow> string \<Rightarrow> pyerror + archive" where
  "open_zip_read fs p =
     (case read_file fs p of
        Inl e \<Rightarrow> Inl e
      | Inr (Bytes _) \<Rightarrow> Inl (BadZipFile p)
      | Inr (ZipBytes a) \<Rightarrow> Inr a)"

subsection \<open>The environment and the world\<close>

text \<open>
  What \<open>subprocess.run\<close> returns: the exit status of pip and its captured output;
  \<open>stderr_str\<close> is the text \<open>str(output.stderr)\<close>.
\<close>

record completed_process =
  returncode :: int
  stdout_str :: string
  stderr_str :: string

text \<open>The keyword arguments of \<open>publish_layer_version\<close>.\<close>

record publish_request =
  LayerName :: string
  Description :: string
  Content :: filedata
  CompatibleRuntimes :: "string list"
  LicenseInfo :: string

text \<open>
  The collaborators. \<open>version_info\<close> is \<open>(sys.version_info[0], sys.version_info[1])\<close>;
  \<open>now_isoformat\<close> is \<open>datetime.now().isoformat(timespec='seconds')\<close>; \<open>run_pip\<close> is the
  pip subprocess, given the module name, the download directory and the cache directory,
  and changes the file system as it likes; \<open>boto3_client\<close> and \<open>publish_layer_version\<close>
  give the text \<open>str(e)\<close> of the exception they raise, if they raise one.
\<close>

record env =
  version_info :: "nat \<times> nat"
  now_isoformat :: string
  run_pip :: "string \<Rightarrow> string \<Rightarrow> string \<Rightarrow> filesystem \<Rightarrow> completed_process \<times> filesystem"
  boto3_client :: "string option"
  publish_layer_version :: "publish_request \<Rightarrow> string option"

record world =
  files :: filesystem
  publish_calls :: "publish_request list"

subsection \<open>The handler, lines 41 to 135: arguments, scratch directories, pip, the wheel file\<close>

definition not_found :: "string \<Rightarrow> response" where
  "not_found msg =
     \<lparr>StatusCode = 404, FunctionError = Some ''ResourceNotFoundException'', Payload = msg\<rparr>"

text \<open>
  Lines 72 to 82 (and 85 to 91): \<open>os.mkdir\<close>, and on \<open>FileExistsError\<close> the files
  below the directory are removed instead. Any other exception is not caught.
\<close>

definition make_scratch_dir :: "filesystem \<Rightarrow> string \<Rightarrow> pyerror + filesystem" where
  "make_scratch_dir fs p =
     (case os_mkdir fs p of
        Inr fs' \<Rightarrow> Inr fs'
      | Inl (FileExistsError _) \<Rightarrow> Inr (remove_files_below fs p)
      | Inl e \<Rightarrow> Inl e)"

text \<open>
  Lines 119 to 125:
  \<^verbatim>\<open>
  WheelFileName = ""
  for file in os.listdir(TmpModuleFolderName):
      if file.lower().endswith(".whl"):
          WheelFileName = file
          break
  \<close>
\<close>

fun find_wheel :: "string list \<Rightarrow> string" where
  "find_wheel [] = []"
| "find_wheel (file # rest) =
     (if endswith (lower file) ''.whl'' then file else find_wheel rest)"

definition TmpPipCacheFolderName :: string where
  "TmpPipCacheFolderName = ''/tmp/pipcachedir/''"

definition TmpModuleFolderName :: "string \<Rightarrow> string" where
  "TmpModuleFolderName ModuleName = ''/tmp/LayerModule_'' @ ModuleName"

text \<open>
  The first stage ends either with the handler's outcome (a return of 404 or an
  unhandled exception) or with \<open>ModuleName\<close>, \<open>CustomLayerName\<close>, \<open>WheelFileName\<close> and the
  world after pip has run.
\<close>

definition download_wheel ::
  "env \<Rightarrow> (string \<rightharpoonup> string) \<Rightarrow> world \<Rightarrow> (outcome \<times> world) + (string \<times> string \<times> string \<times> world)" where
  "download_wheel e event w =
     (case event ''ModuleName'' of
        None \<Rightarrow>
          Inl (Returned (not_found
                 (''No argument for ModuleName was provided in the context name: ''
                  @ backslash_n @ ''Error: '' @ quoted ''ModuleName'')), w)
      | Some ModuleName \<Rightarrow>
          let CustomLayerName = (case event ''CustomLayerName'' of None \<Rightarrow> [] | Some c \<Rightarrow> c) in
          case make_scratch_dir (files w) (TmpModuleFolderName ModuleName) of
            Inl err \<Rightarrow> Inl (Raised err, w)
          | Inr fs1 \<Rightarrow>
              (case make_scratch_dir fs1 TmpPipCacheFolderName of
                 Inl err \<Rightarrow> Inl (Raised err, w\<lparr>files := fs1\<rparr>)
               | Inr fs2 \<Rightarrow>
                   let (output, fs3) =
                         run_pip e ModuleName (TmpModuleFolderName ModuleName) TmpPipCacheFolderName fs2;
                       w3 = w\<lparr>files := fs3\<rparr>
                   in
                   if returncode output \<noteq> 0
                   then Inl (Returned (not_found
                               (''pip was not able to find a module for '' @ ModuleName
                                @ backslash_n @ ''Error:'' @ stderr_str output)), w3)
                   else
                     (case os_listdir fs3 (TmpModuleFolderName ModuleName) of
                        Inl err \<Rightarrow> Inl (Raised err, w3)
                      | Inr listing \<Rightarrow>
                          let WheelFileName = find_wheel listing in
                          if WheelFileName = []
                          then Inl (Returned (not_found
                                      (''pip was not able to download a wheel file for ''
                                       @ ModuleName)), w3)
                          else Inr (ModuleName, CustomLayerName, WheelFileName, w3))))"

subsection \<open>The handler, lines 137 to 207: version, relocation, layer name\<close>

text \<open>
  Lines 144 to 146: \<open>SplitFileName = WheelFileName.split('-')\<close> and
  \<open>ModuleVersion = SplitFileName[1]\<close>; the index raises \<open>IndexError\<close> on a list of one
  element (a split never gives fewer).
\<close>

definition module_version :: "string \<Rightarrow> pyerror + string" where
  "module_version WheelFileName =
     (case split WheelFileName (CHR ''-'') of
        _ # ModuleVersion # _ \<Rightarrow> Inr ModuleVersion
      | _ \<Rightarrow> Inl IndexError)"

definition PythonVersionDot :: "nat \<times> nat \<Rightarrow> string" where
  "PythonVersionDot v = str_nat (fst v) @ ''.'' @ str_nat (snd v)"

definition PythonVersionNoDot :: "nat \<times> nat \<Rightarrow> string" where
  "PythonVersionNoDot v = str_nat (fst v) @ str_nat (snd v)"

definition ExtendedPythonModulePathName :: "nat \<times> nat \<Rightarrow> string" where
  "ExtendedPythonModulePathName v = ''/python/lib/python'' @ PythonVersionDot v @ ''/site-packages''"

definition NewZipFileName :: "string \<Rightarrow> string \<Rightarrow> string \<Rightarrow> string" where
  "NewZipFileName ModuleName ModuleVersion DateTimeString =
     ModuleName @ ''_layer_ver_'' @ ModuleVersion @ ''_'' @ DateTimeString @ ''.zip''"

text \<open>Lines 201 to 207.\<close>

definition NewLayerName :: "string \<Rightarrow> string \<Rightarrow> string \<Rightarrow> nat \<times> nat \<Rightarrow> string" where
  "NewLayerName CustomLayerName ModuleName ModuleVersion v =
     (if CustomLayerName = []
      then ModuleName @ ''_'' @ replace ModuleVersion (CHR ''.'') [] @ ''_py'' @ PythonVersionNoDot v
      else CustomLayerName)"

text \<open>
  Lines 175 to 199 on the file system: the wheel is opened, the new zip file is created,
  the entries are copied, the wheel is removed, the new zip file is closed (which writes
  the archive), the pip cache is removed and the new zip file is read back.
\<close>

definition repackage ::
  "filesystem \<Rightarrow> string \<Rightarrow> string \<Rightarrow> string \<Rightarrow> (pyerror \<times> filesystem) + (filedata \<times> filesystem)" where
  "repackage fs WheelFolderFileName NewZipFolderFileName prefix =
     (case open_zip_read fs WheelFolderFileName of
        Inl err \<Rightarrow> Inl (err, fs)
      | Inr InZipFile \<Rightarrow>
          (case write_file fs NewZipFolderFileName (Bytes []) of
             Inl err \<Rightarrow> Inl (err, fs)
           | Inr fs1 \<Rightarrow>
               (case relocate InZipFile prefix of
                  Inl err \<Rightarrow> Inl (err, fs1)
                | Inr OutZipFile \<Rightarrow>
                    (case os_remove fs1 WheelFolderFileName of
                       Inl err \<Rightarrow> Inl (err, fs1)
                     | Inr fs2 \<Rightarrow>
                         let fs3 = store fs2 NewZipFolderFileName (File (ZipBytes OutZipFile)) in
                         (case shutil_rmtree fs3 TmpPipCacheFolderName of
                            Inl err \<Rightarrow> Inl (err, fs3)
                          | Inr fs4 \<Rightarrow>
                              (case read_file fs4 NewZipFolderFileName of
                                 Inl err \<Rightarrow> Inl (err, fs4)
                               | Inr WheelContent \<Rightarrow> Inr (WheelContent, fs4)))))))"

text \<open>
  The second stage ends either with an unhandled exception or with what the publish
  step needs: the layer name, the bytes of the new zip file, its path, and the world.
\<close>

record layer_build =
  layer_name :: string
  wheel_content :: filedata
  zip_path :: string
  build_world :: world

definition build_layer ::
  "env \<Rightarrow> string \<Rightarrow> string \<Rightarrow> string \<Rightarrow> world \<Rightarrow> (outcome \<times> world) + layer_build" where
  "build_layer e ModuleName CustomLayerName WheelFileName w =
     (case module_version WheelFileName of
        Inl err \<Rightarrow> Inl (Raised err, w)
      | Inr ModuleVersion \<Rightarrow>
          let NewZipFolderFileName =
                TmpModuleFolderName ModuleName @ ''/''
                @ NewZipFileName ModuleName ModuleVersion (now_isoformat e);
              WheelFolderFileName = TmpModuleFolderName ModuleName @ ''/'' @ WheelFileName
          in
          case repackage (files w) WheelFolderFileName NewZipFolderFileName
                 (ExtendedPythonModulePathName (version_info e)) of
            Inl (err, fs) \<Rightarrow> Inl (Raised err, w\<lparr>files := fs\<rparr>)
          | Inr (WheelContent, fs) \<Rightarrow>
              Inr \<lparr>layer_name = NewLayerName CustomLayerName ModuleName ModuleVersion (version_info e),
                   wheel_content = WheelContent,
                   zip_path = NewZipFolderFileName,
                   build_world = w\<lparr>files := fs\<rparr>\<rparr>)"

subsection \<open>The handler, lines 209 to 230: publish and clean up\<close>

definition the_request :: "env \<Rightarrow> layer_build \<Rightarrow> publish_request" where
  "the_request e b =
     \<lparr>LayerName = layer_name b,
      Description = ''Layer generated by Lambda function python-add-module-as-layer'',
      Content = wheel_content b,
      CompatibleRuntimes = [''python'' @ PythonVersionDot (version_info e)],
      LicenseInfo = []\<rparr>"

definition service_exception :: "string \<Rightarrow> response" where
  "service_exception msg =
     \<lparr>StatusCode = 500, FunctionError = Some ''ServiceException'',
      Payload = ''There was a problem when calling the Python boto3 publish_layer_version function: ''
                @ msg\<rparr>"

definition created :: "string \<Rightarrow> response" where
  "created name =
     \<lparr>StatusCode = 200, FunctionError = None,
      Payload = ''New layer was succesfully created with the name '' @ name\<rparr>"

text \<open>
  The \<open>try\<close> block of lines 209 to 219: the exception text, if the client cannot be
  made or the call raises, and the world with the call logged if it was made.
\<close>

definition try_publish :: "env \<Rightarrow> layer_build \<Rightarrow> string option \<times> world" where
  "try_publish e b =
     (case boto3_client e of
        Some msg \<Rightarrow> (Some msg, build_world b)
      | None \<Rightarrow>
          (publish_layer_version e (the_request e b),
           (build_world b)\<lparr>publish_calls := publish_calls (build_world b) @ [the_request e b]\<rparr>))"

definition publish_layer :: "env \<Rightarrow> string \<Rightarrow> layer_build \<Rightarrow> outcome \<times> world" where
  "publish_layer e ModuleName b =
     (case try_publish e b of
        (Some msg, w) \<Rightarrow> (Returned (service_exception msg), w)
      | (None, w) \<Rightarrow>
          (case os_remove (files w) (zip_path b) of
             Inl err \<Rightarrow> (Raised err, w)
           | Inr fs1 \<Rightarrow>
               (case os_rmdir fs1 (TmpModuleFolderName ModuleName) of
                  Inl err \<Rightarrow> (Raised err, w\<lparr>files := fs1\<rparr>)
                | Inr fs2 \<Rightarrow> (Returned (created (layer_name b)), w\<lparr>files := fs2\<rparr>))))"

subsection \<open>The handler\<close>

definition lambda_handler :: "env \<Rightarrow> (string \<rightharpoonup> string) \<Rightarrow> world \<Rightarrow> outcome \<times> world" where
  "lambda_handler e event w =
     (case download_wheel e event w of
        Inl result \<Rightarrow> result
      | Inr (ModuleName, CustomLayerName, WheelFileName, w1) \<Rightarrow>
          (case build_layer e ModuleName CustomLayerName WheelFileName w1 of
             Inl result \<Rightarrow> result
           | Inr b \<Rightarrow> publish_layer e ModuleName b))"

subsection \<open>Concrete inputs\<close>

text \<open>
  A wheel of two entries, a pip that delivers a given wheel file into the download
  directory and exits with status 0, a Python 3.9 runtime, a Lambda client that accepts
  every publish call, and a fresh \<open>/tmp\<close>.
\<close>

definition example_info :: "string \<Rightarrow> nat \<Rightarrow> zipinfo" where
  "example_info name attr =
     \<lparr>filename = name, date_time = (2020, 5, 17, 10, 0, 0), compress_type = 8,
      external_attr = attr\<rparr>"

definition example_wheel :: archive where
  "example_wheel =
     [(example_info ''examplepkg/__init__.py'' 2175008768, ''x = 1''),
      (example_info ''examplepkg-1.2.3.dist-info/METADATA'' 2175008768, ''Name: examplepkg'')]"

text \<open>An archive with the same entry name twice, and one whose entry has no external attributes.\<close>

definition duplicate_wheel :: archive where
  "duplicate_wheel =
     [(example_info ''pkg/data.txt'' 2175008768, ''first''),
      (example_info ''pkg/data.txt'' 2175008768, ''second'')]"

definition plain_wheel :: archive where
  "plain_wheel = [(example_info ''pkg/data.txt'' 0, ''data'')]"

definition pip_delivers ::
  "string \<Rightarrow> archive \<Rightarrow> string \<Rightarrow> string \<Rightarrow> string \<Rightarrow> filesystem \<Rightarrow> completed_process \<times> filesystem" where
  "pip_delivers wheel a ModuleName dest cache fs =
     (\<lparr>returncode = 0, stdout_str = ''Saved '' @ wheel, stderr_str = []\<rparr>,
      store fs (dest @ ''/'' @ wheel) (File (ZipBytes a)))"

definition example_env :: env where
  "example_env =
     \<lparr>version_info = (3, 9),
      now_isoformat = ''2020-05-17T10:00:00'',
      run_pip = pip_delivers ''examplepkg-1.2.3-py3-none-any.whl'' example_wheel,
      boto3_client = None,
      publish_layer_version = (\<lambda>r. None)\<rparr>"

definition refusing_env :: env where
  "refusing_env = example_env\<lparr>publish_layer_version := (\<lambda>r. Some ''AccessDeniedException'')\<rparr>"

definition hyphenless_env :: env where
  "hyphenless_env = example_env\<lparr>run_pip := pip_delivers ''examplepkg.whl'' example_wheel\<rparr>"

text \<open>A pip that finds nothing: exit status 1, nothing written.\<close>

definition pip_rejects :: "string \<Rightarrow> string \<Rightarrow> string \<Rightarrow> filesystem \<Rightarrow> completed_process \<times> filesystem" where
  "pip_rejects ModuleName dest cache fs =
     (\<lparr>returncode = 1, stdout_str = [], stderr_str = ''ERROR: Invalid requirement''\<rparr>, fs)"

definition rejecting_env :: env where
  "rejecting_env = example_env\<lparr>run_pip := pip_rejects\<rparr>"

text \<open>
  A pip that leaves several files in the download directory, in the given order: only a
  source tarball, or a tarball followed by two wheel files, the first with an upper-case
  extension.
\<close>

definition pip_delivers_files ::
  "(string \<times> filedata) list \<Rightarrow> string \<Rightarrow> string \<Rightarrow> string \<Rightarrow> filesystem \<Rightarrow> completed_process \<times> filesystem" where
  "pip_delivers_files fl ModuleName dest cache fs =
     (\<lparr>returncode = 0, stdout_str = [], stderr_str = []\<rparr>,
      fold (\<lambda>f fs'. store fs' (dest @ ''/'' @ fst f) (File (snd f))) fl fs)"

definition sdist_env :: env where
  "sdist_env =
     example_env\<lparr>run_pip := pip_delivers_files [(''examplepkg-1.2.3.tar.gz'', Bytes ''sdist'')]\<rparr>"

definition mixed_env :: env where
  "mixed_env =
     example_env\<lparr>run_pip := pip_delivers_files
        [(''examplepkg-1.2.3.tar.gz'', Bytes ''sdist''),
         (''EXAMPLEPKG-1.2.3-py3-none-any.WHL'', ZipBytes example_wheel),
         (''other-0.1-py3-none-any.whl'', ZipBytes example_wheel)]\<rparr>"

definition example_world :: world where
  "example_world = \<lparr>files = [(''/tmp'', Dir)], publish_calls = []\<rparr>"

definition example_event :: "string \<rightharpoonup> string" where
  "example_event = [''ModuleName'' \<mapsto> ''examplepkg'']"

definition site_packages_39 :: string where
  "site_packages_39 = ''/python/lib/python3.9/site-packages''"

text \<open>
  The stations of the run for \<open>examplepkg\<close>: the world after pip, the relocated archive,
  the path of the new zip file, and what is handed to the publish step.
\<close>

definition downloaded_world :: world where
  "downloaded_world =
     \<lparr>files =
        [(''/tmp'', Dir),
         (''/tmp/LayerModule_examplepkg'', Dir),
         (''/tmp/pipcachedir'', Dir),
         (''/tmp/LayerModule_examplepkg/examplepkg-1.2.3-py3-none-any.whl'',
          File (ZipBytes example_wheel))],
      publish_calls = []\<rparr>"

definition relocated_wheel :: archive where
  "relocated_wheel =
     [(example_info ''/python/lib/python3.9/site-packages/examplepkg/__init__.py'' 2175008768,
       ''x = 1''),
      (example_info ''/python/lib/python3.9/site-packages/examplepkg-1.2.3.dist-info/METADATA''
         2175008768,
       ''Name: examplepkg'')]"

text \<open>The file system before pip runs, and after the two pips that deliver several files.\<close>

definition prepared_files :: filesystem where
  "prepared_files =
     [(''/tmp'', Dir), (''/tmp/LayerModule_examplepkg'', Dir), (''/tmp/pipcachedir'', Dir)]"

definition sdist_files :: filesystem where
  "sdist_files =
     prepared_files @ [(''/tmp/LayerModule_examplepkg/examplepkg-1.2.3.tar.gz'', File (Bytes ''sdist''))]"

definition mixed_files :: filesystem where
  "mixed_files =
     prepared_files
     @ [(''/tmp/LayerModule_examplepkg/examplepkg-1.2.3.tar.gz'', File (Bytes ''sdist'')),
        (''/tmp/LayerModule_examplepkg/EXAMPLEPKG-1.2.3-py3-none-any.WHL'', File (ZipBytes example_wheel)),
        (''/tmp/LayerModule_examplepkg/other-0.1-py3-none-any.whl'', File (ZipBytes example_wheel))]"

definition example_zip_path :: string where
  "example_zip_path =
     ''/tmp/LayerModule_examplepkg/examplepkg_layer_ver_1.2.3_2020-05-17T10:00:00.zip''"

definition built_layer :: "string \<Rightarrow> layer_build" where
  "built_layer name =
     \<lparr>layer_name = name,
      wheel_content = ZipBytes relocated_wheel,
      zip_path = example_zip_path,
      build_world =
        \<lparr>files =
           [(''/tmp'', Dir),
            (''/tmp/LayerModule_examplepkg'', Dir),
            (example_zip_path, File (ZipBytes relocated_wheel))],
         publish_calls = []\<rparr>\<rparr>"

section \<open>Properties\<close>

lemmas str_defs = split_def lower_def lower_char_def endswith_def replace_def digit_char_def
  backslash_n_def quoted_def

lemmas zip_defs = relocate_def infolist_def zip_read_def writestr_def open_to_write_def

lemmas ex_zip_defs = example_info_def example_wheel_def duplicate_wheel_def plain_wheel_def
  site_packages_39_def

subsection \<open>The relocation loop\<close>

text \<open>
  Reading by name succeeds for every name of the archive, and gives an entry's own bytes
  when no other entry has its name.
\<close>

lemma zip_read_member:
  assumes "zi \<in> set (infolist a)"
  shows "\<exists>d. zip_read a (filename zi) = Inr d"
proof -
  from assms obtain e where "e \<in> set a" "fst e = zi"
    by (auto simp: infolist_def)
  then have "\<exists>x\<in>set (rev a). filename (fst x) = filename zi"
    by (intro bexI [of _ e]) simp_all
  then have "find (\<lambda>e. filename (fst e) = filename zi) (rev a) \<noteq> None"
    unfolding find_None_iff by blast
  then show ?thesis
    by (auto simp: zip_read_def split: option.splits)
qed

lemma zip_read_distinct:
  assumes "distinct (map (\<lambda>e. filename (fst e)) a)" and "e \<in> set a"
  shows "zip_read a (filename (fst e)) = Inr (snd e)"
proof -
  from assms(2) have "\<exists>x\<in>set (rev a). filename (fst x) = filename (fst e)"
    by (intro bexI [of _ e]) simp_all
  then have "find (\<lambda>x. filename (fst x) = filename (fst e)) (rev a) \<noteq> None"
    unfolding find_None_iff by blast
  then obtain x where x: "find (\<lambda>x. filename (fst x) = filename (fst e)) (rev a) = Some x"
    by auto
  then obtain i where "i < length (rev a)" and "x = rev a ! i"
      and "filename (fst x) = filename (fst e)"
    unfolding find_Some_iff by blast
  then have "x \<in> set (rev a)" and "filename (fst x) = filename (fst e)"
    using nth_mem by blast+
  then have "x \<in> set a" and "filename (fst x) = filename (fst e)"
    by simp_all
  moreover from assms(1) have "inj_on (\<lambda>e. filename (fst e)) (set a)"
    by (simp add: distinct_map)
  ultimately have "x = e"
    using assms(2) by (auto dest: inj_onD)
  with x show ?thesis
    by (simp add: zip_read_def)
qed


text \<open>
  The loop never raises: it appends one entry per \<open>ZipInfo\<close>, in order, with the renamed
  \<open>ZipInfo\<close> and the bytes that the read by name returned.
\<close>

lemma relocate_loop_result:
  assumes "set zis \<subseteq> set (infolist a)"
  shows "\<exists>R. relocate_loop a P zis out = Inr (out @ R)
            \<and> map fst R = map (relocated_info P) zis
            \<and> map (\<lambda>r. Inr (snd r)) R = map (\<lambda>zi. zip_read a (filename zi)) zis"
  using assms
proof (induction zis arbitrary: out)
  case Nil
  then show ?case by simp
next
  case (Cons zi zis)
  from Cons.prems have "zi \<in> set (infolist a)" by simp
  then obtain d where d: "zip_read a (filename zi) = Inr d"
    using zip_read_member by blast
  from Cons.prems have "set zis \<subseteq> set (infolist a)" by simp
  from Cons.IH [OF this, of "writestr out (zi\<lparr>filename := P @ ''/'' @ filename zi\<rparr>) d"]
  obtain R where R: "relocate_loop a P zis (writestr out (zi\<lparr>filename := P @ ''/'' @ filename zi\<rparr>) d)
        = Inr (writestr out (zi\<lparr>filename := P @ ''/'' @ filename zi\<rparr>) d @ R)"
      "map fst R = map (relocated_info P) zis"
      "map (\<lambda>r. Inr (snd r)) R = map (\<lambda>zi. zip_read a (filename zi)) zis"
    by blast
  show ?case
    apply (rule exI [of _ "(relocated_info P zi, d) # R"])
    using d R by (simp add: writestr_def relocated_info_def)
qed

lemma relocate_result:
  "\<exists>R. relocate a P = Inr R
       \<and> map fst R = map (\<lambda>e. relocated_info P (fst e)) a
       \<and> map (\<lambda>r. Inr (snd r)) R = map (\<lambda>e. zip_read a (filename (fst e))) a"
  using relocate_loop_result [of "infolist a" a P "[]"]
  by (simp add: relocate_def infolist_def comp_def)

lemma filename_relocated_info [simp]:
  "filename (relocated_info P zi) = P @ ''/'' @ filename zi"
  by (simp add: relocated_info_def open_to_write_def)



text \<open>
  With pairwise distinct entry names the output has, entry by entry, the prefixed name and
  the bytes of the source entry.
\<close>

lemma relocate_distinct_names:
  assumes "distinct (map (\<lambda>e. filename (fst e)) a)"
  shows "\<exists>R. relocate a P = Inr R
            \<and> map (\<lambda>r. (filename (fst r), snd r)) R = map (\<lambda>e. (P @ ''/'' @ filename (fst e), snd e)) a"
proof -
  from relocate_result [of a P] obtain R where R: "relocate a P = Inr R"
      "map fst R = map (\<lambda>e. relocated_info P (fst e)) a"
      "map (\<lambda>r. Inr (snd r)) R = map (\<lambda>e. zip_read a (filename (fst e))) a"
    by blast
  have len: "length R = length a"
    using R(2) by (metis length_map)
  have "map (\<lambda>r. (filename (fst r), snd r)) R = map (\<lambda>e. (P @ ''/'' @ filename (fst e), snd e)) a"
  proof (rule nth_equalityI)
    show "length (map (\<lambda>r. (filename (fst r), snd r)) R) = length (map (\<lambda>e. (P @ ''/'' @ filename (fst e), snd e)) a)"
      using len by simp
  next
    fix i assume "i < length (map (\<lambda>r. (filename (fst r), snd r)) R)"
    then have i: "i < length a" "i < length R" using len by simp_all
    have "fst (R ! i) = relocated_info P (fst (a ! i))"
      using R(2) i by (metis nth_map)
    moreover have "Inr (snd (R ! i)) = zip_read a (filename (fst (a ! i)))"
      using R(3) i by (metis (mono_tags, lifting) nth_map)
    moreover have "zip_read a (filename (fst (a ! i))) = Inr (snd (a ! i))"
      using zip_read_distinct [OF assms] i by simp
    ultimately show "map (\<lambda>r. (filename (fst r), snd r)) R ! i = map (\<lambda>e. (P @ ''/'' @ filename (fst e), snd e)) a ! i"
      using i by simp
  qed
  with R(1) show ?thesis by blast
qed


text \<open>
  Claim C1. The relocation loop is meant to give an archive with as many entries as the
  source, in the same order, each with the prefixed name and the bytes of its source
  entry. The count, the order and the names are as claimed, but the bytes are read by
  name: in an archive that has the name \<open>pkg/data.txt\<close> twice, with the bytes \<open>first\<close> and
  \<open>second\<close>, both output entries carry \<open>second\<close>, and no output entry carries \<open>first\<close>.
\<close>

theorem C1_duplicate_names:
  "relocate duplicate_wheel site_packages_39 =
     Inr [(example_info ''/python/lib/python3.9/site-packages/pkg/data.txt'' 2175008768, ''second''),
          (example_info ''/python/lib/python3.9/site-packages/pkg/data.txt'' 2175008768, ''second'')]"
  by (simp add: zip_defs ex_zip_defs Let_def)


text \<open>
  Claim C8. Relocating an archive that was already relocated with the same prefix never
  fails, keeps the number of entries, and puts the prefix in front of every name a second
  time, as it is: no name is merged, dropped or normalised.
\<close>

theorem C8_double_prefix:
  "\<exists>R R2. relocate S P = Inr R \<and> relocate R P = Inr R2
        \<and> length R2 = length R \<and> length R = length S
        \<and> map (\<lambda>r. filename (fst r)) R2 = map (\<lambda>e. P @ ''/'' @ P @ ''/'' @ filename (fst e)) S"
proof -
  from relocate_result [of S P] obtain R where R: "relocate S P = Inr R"
      "map fst R = map (\<lambda>e. relocated_info P (fst e)) S"
    by blast
  from relocate_result [of R P] obtain R2 where R2: "relocate R P = Inr R2"
      "map fst R2 = map (\<lambda>e. relocated_info P (fst e)) R"
    by blast
  have "map (\<lambda>r. filename (fst r)) R = map (\<lambda>e. P @ ''/'' @ filename (fst e)) S"
    using arg_cong [OF R(2), of "map filename"] by (simp add: comp_def)
  moreover have "map (\<lambda>r. filename (fst r)) R2 = map (\<lambda>e. P @ ''/'' @ filename (fst e)) R"
    using arg_cong [OF R2(2), of "map filename"] by (simp add: comp_def)
  moreover have "map (\<lambda>e. P @ ''/'' @ filename (fst e)) R
                   = map (\<lambda>n. P @ ''/'' @ n) (map (\<lambda>r. filename (fst r)) R)"
    by (simp add: comp_def)
  ultimately have "map (\<lambda>r. filename (fst r)) R2 = map (\<lambda>e. P @ ''/'' @ P @ ''/'' @ filename (fst e)) S"
    by (simp add: comp_def)
  moreover have "length R = length S" using R(2) by (metis length_map)
  moreover have "length R2 = length R" using R2(2) by (metis length_map)
  ultimately show ?thesis using R(1) R2(1) by blast
qed


theorem C8_double_prefix_witness:
  "\<exists>R R2. relocate example_wheel site_packages_39 = Inr R \<and> relocate R site_packages_39 = Inr R2
        \<and> length R2 = length R \<and> length R = length example_wheel
        \<and> map (\<lambda>r. filename (fst r)) R2
            = map (\<lambda>e. site_packages_39 @ ''/'' @ site_packages_39 @ ''/'' @ filename (fst e)) example_wheel"
  using C8_double_prefix [of example_wheel site_packages_39] .


text \<open>
  Claim C9, as stated, fails on one kind of entry: the entry of \<open>plain_wheel\<close> has the
  external attribute word 0 (no permission bits), and comes out with 25165824, the
  mode \<open>rw-------\<close>.
\<close>

theorem C9_counterexample:
  "relocate plain_wheel site_packages_39 =
     Inr [(example_info ''/python/lib/python3.9/site-packages/pkg/data.txt'' 25165824, ''data'')]
   \<and> map (\<lambda>e. external_attr (fst e)) plain_wheel = [0]"
  by (simp add: zip_defs ex_zip_defs Let_def)


text \<open>
  Claim C9, amended. For every entry of the source archive the modification time and the
  compression method are unchanged in the output archive, and so is the external
  attribute word with the permission bits whenever it is not zero; a word of zero is
  written as 25165824 (\<open>0o600 << 16\<close>).
\<close>

theorem C9_metadata:
  "\<exists>R. relocate S P = Inr R \<and> length R = length S
      \<and> (\<forall>i<length S.
            date_time (fst (R ! i)) = date_time (fst (S ! i))
          \<and> compress_type (fst (R ! i)) = compress_type (fst (S ! i))
          \<and> external_attr (fst (R ! i))
              = (if external_attr (fst (S ! i)) = 0 then 25165824 else external_attr (fst (S ! i))))"
proof -
  from relocate_result [of S P] obtain R where R: "relocate S P = Inr R"
      "map fst R = map (\<lambda>e. relocated_info P (fst e)) S"
    by blast
  have len: "length R = length S" using R(2) by (metis length_map)
  have "\<forall>i<length S. fst (R ! i) = relocated_info P (fst (S ! i))"
    using R(2) len by (metis nth_map)
  then have "\<forall>i<length S.
            date_time (fst (R ! i)) = date_time (fst (S ! i))
          \<and> compress_type (fst (R ! i)) = compress_type (fst (S ! i))
          \<and> external_attr (fst (R ! i))
              = (if external_attr (fst (S ! i)) = 0 then 25165824 else external_attr (fst (S ! i)))"
    by (simp add: relocated_info_def open_to_write_def)
  with R(1) len show ?thesis by blast
qed

theorem C9_metadata_witness:
  "\<exists>R. relocate example_wheel site_packages_39 = Inr R \<and> length R = 2
      \<and> date_time (fst (R ! 0)) = (2020, 5, 17, 10, 0, 0)
      \<and> compress_type (fst (R ! 0)) = 8
      \<and> external_attr (fst (R ! 0)) = 2175008768"
  using C9_metadata [of example_wheel site_packages_39]
  by (auto simp: example_wheel_def example_info_def)


subsection \<open>The version field of the wheel file name\<close>

text \<open>
  A split gives the text before the first separator, and then the split of what follows
  it; so there are as many fields as separators, plus one.
\<close>

lemma split_from_eq:
  "split_from sep cur s =
     (rev cur @ takeWhile (\<lambda>c. c \<noteq> sep) s)
     # (case dropWhile (\<lambda>c. c \<noteq> sep) s of [] \<Rightarrow> [] | _ # r \<Rightarrow> split_from sep [] r)"
  by (induction s arbitrary: cur) simp_all

lemma length_split_from:
  "length (split_from sep cur s) = Suc (length (filter (\<lambda>c. c = sep) s))"
  by (induction s arbitrary: cur) simp_all

lemma length_split: "length (split s sep) = Suc (length (filter (\<lambda>c. c = sep) s))"
  by (simp add: split_def length_split_from)

lemma split_single_iff: "length (split s sep) < 2 \<longleftrightarrow> sep \<notin> set s"
  by (auto simp: length_split filter_empty_conv)

lemma module_version_eq:
  "module_version W =
     (case dropWhile (\<lambda>c. c \<noteq> CHR ''-'') W of
        [] \<Rightarrow> Inl IndexError
      | _ # r \<Rightarrow> Inr (takeWhile (\<lambda>c. c \<noteq> CHR ''-'') r))"
proof (cases "dropWhile (\<lambda>c. c \<noteq> CHR ''-'') W")
  case Nil
  show ?thesis
    unfolding module_version_def split_def split_from_eq [of _ "[]" W] Nil by simp
next
  case (Cons x r)
  show ?thesis
    unfolding module_version_def split_def split_from_eq [of _ "[]" W] Cons
    by (simp add: split_from_eq [of _ "[]" r])
qed

lemma module_version_second_field:
  assumes "2 \<le> length (split W (CHR ''-''))"
  shows "module_version W = Inr (split W (CHR ''-'') ! 1)"
proof -
  from assms obtain a b rest where "split W (CHR ''-'') = a # b # rest"
    by (cases "split W (CHR ''-'')"; cases "tl (split W (CHR ''-''))") auto
  then show ?thesis by (simp add: module_version_def)
qed

lemma module_version_no_hyphen:
  assumes "CHR ''-'' \<notin> set W"
  shows "module_version W = Inl IndexError"
proof -
  from assms have d: "dropWhile (\<lambda>c. c \<noteq> CHR ''-'') W = []"
    by (auto simp: dropWhile_eq_Nil_conv)
  show ?thesis
    unfolding module_version_eq d by simp
qed

lemma module_version_name_rest:
  assumes "CHR ''-'' \<notin> set name"
  shows "module_version (name @ ''-'' @ rest) = Inr (takeWhile (\<lambda>c. c \<noteq> CHR ''-'') rest)"
proof -
  from assms have d: "dropWhile (\<lambda>c. c \<noteq> CHR ''-'') (name @ ''-'' @ rest) = ''-'' @ rest"
    by (induction name) auto
  show ?thesis
    unfolding module_version_eq d by simp
qed

lemma replace_is_filter: "replace s old [] = filter (\<lambda>c. c \<noteq> old) s"
  by (induction s) (simp_all add: replace_def)


subsection \<open>The stages of the handler\<close>

lemmas os_defs = lookup_def norm_path_def dirname_def basename_def store_def unlink_def under_def is_file_def
  os_mkdir_def os_listdir_def os_remove_def os_rmdir_def shutil_rmtree_def read_file_def write_file_def
  open_zip_read_def remove_files_below_def make_scratch_dir_def os_path_exists_def

lemmas handler_defs = lambda_handler_def download_wheel_def build_layer_def publish_layer_def
  try_publish_def the_request_def repackage_def module_version_def NewLayerName_def NewZipFileName_def
  ExtendedPythonModulePathName_def PythonVersionDot_def PythonVersionNoDot_def TmpModuleFolderName_def
  TmpPipCacheFolderName_def Let_def

lemmas ex_defs = example_env_def refusing_env_def hyphenless_env_def rejecting_env_def pip_rejects_def example_world_def example_event_def
  example_wheel_def example_info_def pip_delivers_def downloaded_world_def relocated_wheel_def
  example_zip_path_def built_layer_def

text \<open>The run for \<open>examplepkg\<close>, stage by stage, with and without a custom layer name.\<close>

lemma example_download:
  "download_wheel example_env (example_event(''CustomLayerName'' := custom)) example_world
     = Inr (''examplepkg'', (case custom of None \<Rightarrow> [] | Some c \<Rightarrow> c),
            ''examplepkg-1.2.3-py3-none-any.whl'', downloaded_world)"
  by (simp add: download_wheel_def TmpModuleFolderName_def TmpPipCacheFolderName_def Let_def
        ex_defs os_defs str_defs)

lemma example_build:
  "build_layer example_env ''examplepkg'' custom ''examplepkg-1.2.3-py3-none-any.whl'' downloaded_world
     = Inr (built_layer (if custom = [] then ''examplepkg_123_py39'' else custom))"
  by (simp add: build_layer_def repackage_def module_version_def NewLayerName_def NewZipFileName_def
        ExtendedPythonModulePathName_def PythonVersionDot_def PythonVersionNoDot_def
        TmpModuleFolderName_def TmpPipCacheFolderName_def Let_def zip_defs ex_defs os_defs str_defs)

lemma download_wheel_env:
  "download_wheel (e\<lparr>publish_layer_version := f\<rparr>) event w = download_wheel e event w"
  by (simp add: download_wheel_def cong: option.case_cong sum.case_cong if_cong)

lemma build_layer_env:
  "build_layer (e\<lparr>publish_layer_version := f\<rparr>) M C W w = build_layer e M C W w"
  by (simp add: build_layer_def cong: option.case_cong sum.case_cong if_cong)


lemma lambda_handler_publish:
  assumes "download_wheel e event w = Inr (M, C, W, w1)" and "build_layer e M C W w1 = Inr b"
  shows "lambda_handler e event w = publish_layer e M b"
  using assms by (simp add: lambda_handler_def)

lemma download_wheel_Inr:
  assumes "download_wheel e event w = Inr (M, C, W, w1)"
  shows "event ''ModuleName'' = Some M"
    and "C = (case event ''CustomLayerName'' of None \<Rightarrow> [] | Some c \<Rightarrow> c)"
    and "W \<noteq> []"
    and "publish_calls w1 = publish_calls w"
  using assms
  by (auto simp: download_wheel_def Let_def split: option.splits sum.splits prod.splits if_splits)

lemma build_layer_Inr:
  assumes "build_layer e M C W w1 = Inr b"
  shows "\<exists>V. module_version W = Inr V \<and> layer_name b = NewLayerName C M V (version_info e)"
    and "publish_calls (build_world b) = publish_calls w1"
    and "read_file (files (build_world b)) (zip_path b) = Inr (wheel_content b)"
  using assms
  by (auto simp: build_layer_def repackage_def Let_def split: sum.splits prod.splits)

lemma build_layer_Inl:
  assumes "build_layer e M C W w1 = Inl (out, w')"
  shows "\<exists>err. out = Raised err"
  using assms
  by (auto simp: build_layer_def Let_def split: sum.splits prod.splits)

text \<open>
  Claim C3. For a wheel file name with at least two hyphen-delimited fields the derived
  version is the second field, that is the text between the first hyphen and the next
  one (or the end of the name). With no custom layer name, the layer name the handler
  builds is the module name, an underscore, the version without its dots, \<open>_py\<close> and
  the major and minor number of the runtime. For the module \<open>examplepkg\<close>, the file
  \<open>examplepkg-1.2.3-py3-none-any.whl\<close> and Python 3.9 the version is \<open>1.2.3\<close> and the
  layer name \<open>examplepkg_123_py39\<close>.
\<close>

theorem C3_version_and_layer_name:
  "(2 \<le> length (split W (CHR ''-'')) \<longrightarrow> module_version W = Inr (split W (CHR ''-'') ! 1))
   \<and> (CHR ''-'' \<notin> set name \<longrightarrow>
        module_version (name @ ''-'' @ rest) = Inr (takeWhile (\<lambda>c. c \<noteq> CHR ''-'') rest))
   \<and> (build_layer e M [] W w = Inr b \<longrightarrow>
        (\<exists>V. module_version W = Inr V
           \<and> layer_name b = M @ ''_'' @ filter (\<lambda>c. c \<noteq> CHR ''.'') V @ ''_py''
                              @ str_nat (fst (version_info e)) @ str_nat (snd (version_info e))))"
  using module_version_second_field [of W] module_version_name_rest [of name rest]
    build_layer_Inr(1) [of e M "[]" W w b]
  by (auto simp: NewLayerName_def replace_is_filter PythonVersionNoDot_def)

theorem C3_version_and_layer_name_witness:
  "2 \<le> length (split ''examplepkg-1.2.3-py3-none-any.whl'' (CHR ''-''))
   \<and> CHR ''-'' \<notin> set ''examplepkg''
   \<and> module_version ''examplepkg-1.2.3-py3-none-any.whl'' = Inr ''1.2.3''
   \<and> build_layer example_env ''examplepkg'' [] ''examplepkg-1.2.3-py3-none-any.whl'' downloaded_world
        = Inr (built_layer ''examplepkg_123_py39'')
   \<and> layer_name (built_layer ''examplepkg_123_py39'') = ''examplepkg_123_py39''"
  using C3_version_and_layer_name [of "''examplepkg-1.2.3-py3-none-any.whl''" "''examplepkg''"
      "''1.2.3-py3-none-any.whl''" example_env "''examplepkg''" downloaded_world
      "built_layer ''examplepkg_123_py39''"]
    example_build [of "[]"]
  by (simp add: split_def built_layer_def)

text \<open>
  Claim C4, as stated, fails: with the wheel file \<open>examplepkg.whl\<close>, which has no hyphen,
  the handler does not return a not-found response; the index into the split raises
  \<open>IndexError\<close>, nothing catches it, and it leaves the handler.
\<close>

theorem C4_counterexample:
  "fst (lambda_handler hyphenless_env example_event example_world) = Raised IndexError"
  by (simp add: ex_defs os_defs str_defs handler_defs zip_defs)

text \<open>
  Claim C4, amended. When the name of the selected wheel file has fewer than two
  hyphen-delimited fields, the version parse raises \<open>IndexError\<close>; the handler does not
  handle it, returns no response, and leaves the world as it was after pip ran.
\<close>

theorem C4_index_error:
  assumes "download_wheel e event w = Inr (M, C, W, w1)"
      and "length (split W (CHR ''-'')) < 2"
  shows "lambda_handler e event w = (Raised IndexError, w1)"
proof -
  from assms(2) have "module_version W = Inl IndexError"
    by (simp add: split_single_iff module_version_no_hyphen)
  then have "build_layer e M C W w1 = Inl (Raised IndexError, w1)"
    by (simp add: build_layer_def)
  with assms(1) show ?thesis
    by (simp add: lambda_handler_def)
qed

theorem C4_index_error_witness:
  "\<exists>w1. download_wheel hyphenless_env example_event example_world
           = Inr (''examplepkg'', [], ''examplepkg.whl'', w1)
       \<and> length (split ''examplepkg.whl'' (CHR ''-'')) < 2
       \<and> lambda_handler hyphenless_env example_event example_world = (Raised IndexError, w1)"
proof -
  obtain w1 where d: "download_wheel hyphenless_env example_event example_world
           = Inr (''examplepkg'', [], ''examplepkg.whl'', w1)"
    by (simp add: download_wheel_def TmpModuleFolderName_def TmpPipCacheFolderName_def Let_def
        ex_defs os_defs str_defs)
  have l: "length (split ''examplepkg.whl'' (CHR ''-'')) < 2"
    by (simp add: length_split)
  from C4_index_error [OF d l] d l show ?thesis by blast
qed


subsection \<open>The publish step\<close>

lemma example_download_plain:
  "download_wheel example_env example_event example_world
     = Inr (''examplepkg'', [], ''examplepkg-1.2.3-py3-none-any.whl'', downloaded_world)"
proof -
  have "example_event(''CustomLayerName'' := None) = example_event"
    by (simp add: example_event_def fun_upd_idem_iff)
  with example_download [of None] show ?thesis by simp
qed

lemma publish_layer_calls:
  assumes "boto3_client e = None"
  shows "publish_calls (snd (publish_layer e M b)) = publish_calls (build_world b) @ [the_request e b]"
  using assms
  by (simp add: publish_layer_def try_publish_def split: option.splits sum.splits)

lemma publish_layer_error:
  assumes "fst (try_publish e b) = Some msg"
  shows "publish_layer e M b = (Returned (service_exception msg), snd (try_publish e b))"
  using assms
  by (cases "try_publish e b") (simp add: publish_layer_def)

text \<open>
  Claim C6. Whenever the handler reaches the publish step and the call to
  \<open>publish_layer_version\<close> raises, the handler returns status code 500 with the error kind
  \<open>ServiceException\<close> and a payload that ends with the text of the exception.
\<close>

theorem C6_publish_error:
  assumes "download_wheel e event w = Inr (M, C, W, w1)"
      and "build_layer e M C W w1 = Inr b"
      and "boto3_client e = None"
      and "publish_layer_version e (the_request e b) = Some msg"
  shows "fst (lambda_handler e event w)
           = Returned \<lparr>StatusCode = 500, FunctionError = Some ''ServiceException'',
                       Payload = ''There was a problem when calling the Python boto3 publish_layer_version function: '' @ msg\<rparr>"
proof -
  from assms(3,4) have "fst (try_publish e b) = Some msg"
    by (simp add: try_publish_def)
  then show ?thesis
    using lambda_handler_publish [OF assms(1,2)]
    by (simp add: publish_layer_error service_exception_def)
qed

theorem C6_publish_error_witness:
  "download_wheel refusing_env example_event example_world
     = Inr (''examplepkg'', [], ''examplepkg-1.2.3-py3-none-any.whl'', downloaded_world)
   \<and> build_layer refusing_env ''examplepkg'' [] ''examplepkg-1.2.3-py3-none-any.whl'' downloaded_world
       = Inr (built_layer ''examplepkg_123_py39'')
   \<and> boto3_client refusing_env = None
   \<and> publish_layer_version refusing_env (the_request refusing_env (built_layer ''examplepkg_123_py39''))
       = Some ''AccessDeniedException''
   \<and> fst (lambda_handler refusing_env example_event example_world)
       = Returned \<lparr>StatusCode = 500, FunctionError = Some ''ServiceException'',
                   Payload = ''There was a problem when calling the Python boto3 publish_layer_version function: AccessDeniedException''\<rparr>"
proof -
  have d: "download_wheel refusing_env example_event example_world
     = Inr (''examplepkg'', [], ''examplepkg-1.2.3-py3-none-any.whl'', downloaded_world)"
    using example_download_plain
    by (simp add: refusing_env_def download_wheel_env)
  have b: "build_layer refusing_env ''examplepkg'' [] ''examplepkg-1.2.3-py3-none-any.whl'' downloaded_world
       = Inr (built_layer ''examplepkg_123_py39'')"
    using example_build [of "[]"]
    by (simp add: refusing_env_def build_layer_env)
  have c: "boto3_client refusing_env = None"
    by (simp add: refusing_env_def example_env_def)
  have p: "publish_layer_version refusing_env (the_request refusing_env (built_layer ''examplepkg_123_py39''))
       = Some ''AccessDeniedException''"
    by (simp add: refusing_env_def)
  from C6_publish_error [OF d b c p] d b c p show ?thesis
    by simp
qed

text \<open>
  Claim C7, as stated, fails for one supplied value: an event that gives
  \<open>CustomLayerName\<close> as the empty string is published under the generated name
  \<open>examplepkg_123_py39\<close>, not under the supplied value.
\<close>

theorem C7_counterexample:
  "map LayerName
     (publish_calls (snd (lambda_handler example_env (example_event(''CustomLayerName'' \<mapsto> []))
                            example_world)))
     = [''examplepkg_123_py39'']"
  using example_download [of "Some []"] example_build [of "[]"]
  by (simp add: lambda_handler_def publish_layer_calls example_env_def built_layer_def the_request_def)

text \<open>
  Claim C7, amended. For every invocation whose input supplies a custom layer name that
  is not the empty string and that reaches the publish call, the generated name is
  ignored and the name passed to the publish call is the supplied value, verbatim.
\<close>

theorem C7_custom_layer_name:
  assumes "event ''CustomLayerName'' = Some c" and "c \<noteq> []"
      and "download_wheel e event w = Inr (M, C, W, w1)"
      and "build_layer e M C W w1 = Inr b"
      and "boto3_client e = None"
  shows "publish_calls (snd (lambda_handler e event w)) = publish_calls w @ [the_request e b]
       \<and> LayerName (the_request e b) = c"
proof -
  from assms(1,3) have "C = c"
    using download_wheel_Inr(2) by fastforce
  with assms(2,4) have "layer_name b = c"
    using build_layer_Inr(1) [of e M C W w1 b] by (auto simp: NewLayerName_def)
  moreover have "publish_calls (build_world b) = publish_calls w"
    using build_layer_Inr(2) [OF assms(4)] download_wheel_Inr(4) [OF assms(3)] by simp
  ultimately show ?thesis
    using lambda_handler_publish [OF assms(3,4)] publish_layer_calls [OF assms(5)]
    by (simp add: the_request_def)
qed

theorem C7_custom_layer_name_witness:
  "(example_event(''CustomLayerName'' \<mapsto> ''mylayer'')) ''CustomLayerName'' = Some ''mylayer''
   \<and> ''mylayer'' \<noteq> []
   \<and> boto3_client example_env = None
   \<and> map LayerName
        (publish_calls (snd (lambda_handler example_env (example_event(''CustomLayerName'' \<mapsto> ''mylayer''))
                               example_world)))
       = [''mylayer'']"
proof -
  have d: "download_wheel example_env (example_event(''CustomLayerName'' \<mapsto> ''mylayer'')) example_world
     = Inr (''examplepkg'', ''mylayer'', ''examplepkg-1.2.3-py3-none-any.whl'', downloaded_world)"
    using example_download [of "Some ''mylayer''"] by simp
  have b: "build_layer example_env ''examplepkg'' ''mylayer'' ''examplepkg-1.2.3-py3-none-any.whl''
             downloaded_world = Inr (built_layer ''mylayer'')"
    using example_build [of "''mylayer''"] by simp
  have c: "boto3_client example_env = None"
    by (simp add: example_env_def)
  have e: "(example_event(''CustomLayerName'' \<mapsto> ''mylayer'')) ''CustomLayerName'' = Some ''mylayer''"
    by simp
  have n: "''mylayer'' \<noteq> []" by simp
  from C7_custom_layer_name [OF e n d b c] e n c show ?thesis
    by (simp add: example_world_def)
qed


subsection \<open>Cleaning up\<close>

text \<open>What \<open>os.remove\<close> and \<open>os.rmdir\<close> have removed is gone, and nothing comes back.\<close>

lemma map_of_filter_key: "map_of (filter (\<lambda>e. fst e \<noteq> k) fs) k = None"
  by (induction fs) auto

lemma map_of_filter_None: "map_of fs k = None \<Longrightarrow> map_of (filter P fs) k = None"
  by (induction fs) (auto split: if_splits)

lemma lookup_NoneD: "lookup fs p = None \<Longrightarrow> norm_path p \<noteq> [] \<and> map_of fs (norm_path p) = None"
  by (simp add: lookup_def split: if_splits)

lemma lookup_filter_None: "lookup fs q = None \<Longrightarrow> lookup (filter P fs) q = None"
  by (auto simp: lookup_def map_of_filter_None split: if_splits)

lemma os_remove_gone:
  assumes "os_remove fs p = Inr fs'"
  shows "lookup fs' p = None"
proof -
  from assms have "fs' = unlink fs p" and "\<exists>d. lookup fs p = Some (File d)"
    by (auto simp: os_remove_def split: option.splits node.splits)
  moreover then have "norm_path p \<noteq> []"
    by (auto simp: lookup_def split: if_splits)
  ultimately show ?thesis
    by (simp add: lookup_def unlink_def map_of_filter_key)
qed

lemma norm_path_TmpModuleFolderName: "norm_path (TmpModuleFolderName M) \<noteq> []"
proof -
  have "\<exists>c\<in>set (rev (TmpModuleFolderName M)). c \<noteq> CHR ''/''"
    by (rule bexI [of _ "CHR ''_''"]) (simp_all add: TmpModuleFolderName_def)
  then show ?thesis
    unfolding norm_path_def by (simp add: dropWhile_eq_Nil_conv)
qed

lemma os_rmdir_gone:
  assumes "os_rmdir fs p = Inr fs'" and "norm_path p \<noteq> []"
  shows "lookup fs' p = None" and "lookup fs q = None \<Longrightarrow> lookup fs' q = None"
proof -
  from assms(1) have fs': "fs' = unlink fs p"
    by (auto simp: os_rmdir_def split: option.splits node.splits if_splits)
  with assms(2) show "lookup fs' p = None"
    by (simp add: lookup_def unlink_def map_of_filter_key)
  show "lookup fs q = None \<Longrightarrow> lookup fs' q = None"
    unfolding fs' unlink_def by (rule lookup_filter_None)
qed

text \<open>
  Claim C2, as stated, fails when the publish call fails: with a Lambda client that
  refuses the call, the handler returns the 500 response while the relocated zip file
  and the download directory are still there.
\<close>

theorem C2_counterexample:
  "fst (lambda_handler refusing_env example_event example_world)
     = Returned (service_exception ''AccessDeniedException'')
   \<and> os_path_exists (files (snd (lambda_handler refusing_env example_event example_world)))
        ''/tmp/LayerModule_examplepkg/examplepkg_layer_ver_1.2.3_2020-05-17T10:00:00.zip''
   \<and> os_path_exists (files (snd (lambda_handler refusing_env example_event example_world)))
        ''/tmp/LayerModule_examplepkg''"
proof -
  have d: "download_wheel refusing_env example_event example_world
     = Inr (''examplepkg'', [], ''examplepkg-1.2.3-py3-none-any.whl'', downloaded_world)"
    using example_download_plain
    by (simp add: refusing_env_def download_wheel_env)
  have b: "build_layer refusing_env ''examplepkg'' [] ''examplepkg-1.2.3-py3-none-any.whl'' downloaded_world
       = Inr (built_layer ''examplepkg_123_py39'')"
    using example_build [of "[]"]
    by (simp add: refusing_env_def build_layer_env)
  have "lambda_handler refusing_env example_event example_world
          = publish_layer refusing_env ''examplepkg'' (built_layer ''examplepkg_123_py39'')"
    using d b by (rule lambda_handler_publish)
  then show ?thesis
    by (simp add: publish_layer_def try_publish_def refusing_env_def example_env_def built_layer_def
          example_zip_path_def os_path_exists_def lookup_def norm_path_def)
qed

text \<open>
  Claim C2, amended. After every invocation that reaches the publish step: when the
  publish call succeeds and the handler returns, it returns the success response and
  neither the relocated zip file nor the download directory exists any more; when the
  publish call fails, the handler returns the 500 response and leaves the file system as
  it was at the call, the relocated zip file still readable.
\<close>

theorem C2_cleanup:
  assumes "download_wheel e event w = Inr (M, C, W, w1)"
      and "build_layer e M C W w1 = Inr b"
  shows "(fst (try_publish e b) = None \<and> lambda_handler e event w = (Returned r, w')
          \<longrightarrow> r = created (layer_name b)
            \<and> \<not> os_path_exists (files w') (zip_path b)
            \<and> \<not> os_path_exists (files w') (TmpModuleFolderName M))
       \<and> (fst (try_publish e b) = Some msg
          \<longrightarrow> fst (lambda_handler e event w) = Returned (service_exception msg)
            \<and> files (snd (lambda_handler e event w)) = files (build_world b)
            \<and> read_file (files (build_world b)) (zip_path b) = Inr (wheel_content b))"
proof (intro conjI impI)
  assume ok: "fst (try_publish e b) = None \<and> lambda_handler e event w = (Returned r, w')"
  obtain w2 where t: "try_publish e b = (None, w2)"
    using ok by (cases "try_publish e b") simp
  from ok have p: "publish_layer e M b = (Returned r, w')"
    using lambda_handler_publish [OF assms] by simp
  from p t obtain fs1 fs2 where
      rm: "os_remove (files w2) (zip_path b) = Inr fs1"
      and rd: "os_rmdir fs1 (TmpModuleFolderName M) = Inr fs2"
      and res: "r = created (layer_name b)" "w' = w2\<lparr>files := fs2\<rparr>"
    by (auto simp: publish_layer_def split: sum.splits)
  from res show "r = created (layer_name b)" by simp
  have "lookup fs1 (zip_path b) = None"
    using rm by (rule os_remove_gone)
  then have "lookup fs2 (zip_path b) = None"
    using os_rmdir_gone(2) [OF rd norm_path_TmpModuleFolderName] by simp
  with res show "\<not> os_path_exists (files w') (zip_path b)"
    by (simp add: os_path_exists_def)
  have "lookup fs2 (TmpModuleFolderName M) = None"
    using os_rmdir_gone(1) [OF rd norm_path_TmpModuleFolderName] .
  with res show "\<not> os_path_exists (files w') (TmpModuleFolderName M)"
    by (simp add: os_path_exists_def)
next
  assume err: "fst (try_publish e b) = Some msg"
  then have p: "lambda_handler e event w = (Returned (service_exception msg), snd (try_publish e b))"
    using lambda_handler_publish [OF assms] publish_layer_error by simp
  then show "fst (lambda_handler e event w) = Returned (service_exception msg)" by simp
  show "files (snd (lambda_handler e event w)) = files (build_world b)"
    using p by (simp add: try_publish_def split: option.splits)
  show "read_file (files (build_world b)) (zip_path b) = Inr (wheel_content b)"
    using build_layer_Inr(3) [OF assms(2)] .
qed



theorem C2_cleanup_witness:
  "download_wheel example_env example_event example_world
     = Inr (''examplepkg'', [], ''examplepkg-1.2.3-py3-none-any.whl'', downloaded_world)
   \<and> build_layer example_env ''examplepkg'' [] ''examplepkg-1.2.3-py3-none-any.whl'' downloaded_world
       = Inr (built_layer ''examplepkg_123_py39'')
   \<and> fst (try_publish example_env (built_layer ''examplepkg_123_py39'')) = None
   \<and> (\<exists>w'. lambda_handler example_env example_event example_world
              = (Returned (created ''examplepkg_123_py39''), w')
          \<and> \<not> os_path_exists (files w') example_zip_path
          \<and> \<not> os_path_exists (files w') ''/tmp/LayerModule_examplepkg'')"
proof -
  note d = example_download_plain
  have b: "build_layer example_env ''examplepkg'' [] ''examplepkg-1.2.3-py3-none-any.whl'' downloaded_world
       = Inr (built_layer ''examplepkg_123_py39'')"
    using example_build [of "[]"] by simp
  have t: "fst (try_publish example_env (built_layer ''examplepkg_123_py39'')) = None"
    by (simp add: try_publish_def example_env_def)
  obtain w' where h: "lambda_handler example_env example_event example_world
              = (Returned (created ''examplepkg_123_py39''), w')"
    using lambda_handler_publish [OF d b]
    by (simp add: publish_layer_def try_publish_def example_env_def built_layer_def example_zip_path_def
          os_defs TmpModuleFolderName_def)
  from C2_cleanup [OF d b, of "created ''examplepkg_123_py39''" w' "[]"] t h
  have "\<not> os_path_exists (files w') example_zip_path
      \<and> \<not> os_path_exists (files w') ''/tmp/LayerModule_examplepkg''"
    by (simp add: built_layer_def TmpModuleFolderName_def)
  with d b t h show ?thesis by blast
qed

subsection \<open>Choosing the wheel file\<close>

lemma lower_char_upper:
  "lower_char (CHR ''W'') = CHR ''w''" "lower_char (CHR ''H'') = CHR ''h''" "lower_char (CHR ''L'') = CHR ''l''"
  "lower_char (CHR ''w'') = CHR ''w''" "lower_char (CHR ''h'') = CHR ''h''" "lower_char (CHR ''l'') = CHR ''l''"
  "lower_char (CHR ''.'') = CHR ''.''"
  by (simp_all add: lower_char_def)

lemma lower_char_w: "lower_char c = CHR ''w'' \<longleftrightarrow> c = CHR ''w'' \<or> c = CHR ''W''"
  by (auto simp: lower_char_def split: if_splits)

lemma lower_char_h: "lower_char c = CHR ''h'' \<longleftrightarrow> c = CHR ''h'' \<or> c = CHR ''H''"
  by (auto simp: lower_char_def split: if_splits)

lemma lower_char_l: "lower_char c = CHR ''l'' \<longleftrightarrow> c = CHR ''l'' \<or> c = CHR ''L''"
  by (auto simp: lower_char_def split: if_splits)

lemma lower_char_dot: "lower_char c = CHR ''.'' \<longleftrightarrow> c = CHR ''.''"
  by (auto simp: lower_char_def split: if_splits)

lemma endswith_whl:
  "endswith (lower file) ''.whl'' \<longleftrightarrow>
     (\<exists>stem a b c. file = stem @ [CHR ''.'', a, b, c]
        \<and> a \<in> {CHR ''w'', CHR ''W''} \<and> b \<in> {CHR ''h'', CHR ''H''} \<and> c \<in> {CHR ''l'', CHR ''L''})"
proof
  assume e: "endswith (lower file) ''.whl''"
  define t where "t = drop (length file - 4) file"
  from e have len: "4 \<le> length file" and m: "map lower_char t = ''.whl''"
    by (simp_all add: endswith_def lower_def t_def drop_map eval_nat_numeral)
  from len have "length t = Suc (Suc (Suc (Suc 0)))"
    by (simp add: t_def eval_nat_numeral)
  then obtain x a b c where t: "t = [x, a, b, c]"
    by (auto simp: length_Suc_conv)
  with m have "x = CHR ''.''" "a \<in> {CHR ''w'', CHR ''W''}" "b \<in> {CHR ''h'', CHR ''H''}"
      "c \<in> {CHR ''l'', CHR ''L''}"
    by (simp_all add: lower_char_w lower_char_h lower_char_l lower_char_dot)
  moreover have "file = take (length file - 4) file @ t"
    by (simp add: t_def)
  ultimately show "\<exists>stem a b c. file = stem @ [CHR ''.'', a, b, c]
        \<and> a \<in> {CHR ''w'', CHR ''W''} \<and> b \<in> {CHR ''h'', CHR ''H''} \<and> c \<in> {CHR ''l'', CHR ''L''}"
    using t by blast
next
  assume "\<exists>stem a b c. file = stem @ [CHR ''.'', a, b, c]
        \<and> a \<in> {CHR ''w'', CHR ''W''} \<and> b \<in> {CHR ''h'', CHR ''H''} \<and> c \<in> {CHR ''l'', CHR ''L''}"
  then obtain stem a b c where "file = stem @ [CHR ''.'', a, b, c]"
      and "lower_char a = CHR ''w''" "lower_char b = CHR ''h''" "lower_char c = CHR ''l''"
    by (auto simp: lower_char_upper)
  then show "endswith (lower file) ''.whl''"
    by (simp add: endswith_def lower_def lower_char_upper)
qed

lemma find_wheel_filter:
  "find_wheel listing =
     (case filter (\<lambda>f. endswith (lower f) ''.whl'') listing of [] \<Rightarrow> [] | file # _ \<Rightarrow> file)"
  by (induction listing) simp_all

lemma wheel_name_nonempty: "endswith (lower f) ''.whl'' \<Longrightarrow> f \<noteq> []"
  by (auto simp: endswith_def lower_def)


lemma download_wheel_after_pip:
  assumes "event ''ModuleName'' = Some M"
      and "make_scratch_dir (files w) (TmpModuleFolderName M) = Inr fs1"
      and "make_scratch_dir fs1 TmpPipCacheFolderName = Inr fs2"
      and "run_pip e M (TmpModuleFolderName M) TmpPipCacheFolderName fs2 = (out, fs3)"
  shows "download_wheel e event w =
           (if returncode out \<noteq> 0
            then Inl (Returned (not_found (''pip was not able to find a module for '' @ M
                                            @ backslash_n @ ''Error:'' @ stderr_str out)),
                      w\<lparr>files := fs3\<rparr>)
            else case os_listdir fs3 (TmpModuleFolderName M) of
                   Inl err \<Rightarrow> Inl (Raised err, w\<lparr>files := fs3\<rparr>)
                 | Inr listing \<Rightarrow>
                     if find_wheel listing = []
                     then Inl (Returned (not_found (''pip was not able to download a wheel file for '' @ M)),
                               w\<lparr>files := fs3\<rparr>)
                     else Inr (M, (case event ''CustomLayerName'' of None \<Rightarrow> [] | Some c \<Rightarrow> c),
                               find_wheel listing, w\<lparr>files := fs3\<rparr>))"
  using assms by (auto simp: download_wheel_def Let_def split: sum.splits)

text \<open>
  Claim C10. A file of the download directory counts as a wheel exactly when its name
  ends in a dot followed by w, h, l in either case. When pip has succeeded, the handler
  looks at the wheel files of the listing in listing order: with none it returns the
  404 not-found response, otherwise it goes on with the first of them.
\<close>

theorem C10_wheel_selection:
  assumes "event ''ModuleName'' = Some M"
      and "make_scratch_dir (files w) (TmpModuleFolderName M) = Inr fs1"
      and "make_scratch_dir fs1 TmpPipCacheFolderName = Inr fs2"
      and "run_pip e M (TmpModuleFolderName M) TmpPipCacheFolderName fs2 = (out, fs3)"
      and "returncode out = 0"
      and "os_listdir fs3 (TmpModuleFolderName M) = Inr listing"
  shows "(endswith (lower file) ''.whl'' \<longleftrightarrow>
           (\<exists>stem a b c. file = stem @ [CHR ''.'', a, b, c]
              \<and> a \<in> {CHR ''w'', CHR ''W''} \<and> b \<in> {CHR ''h'', CHR ''H''} \<and> c \<in> {CHR ''l'', CHR ''L''}))
       \<and> lambda_handler e event w =
           (case filter (\<lambda>f. endswith (lower f) ''.whl'') listing of
              [] \<Rightarrow> (Returned \<lparr>StatusCode = 404, FunctionError = Some ''ResourceNotFoundException'',
                                 Payload = ''pip was not able to download a wheel file for '' @ M\<rparr>,
                     w\<lparr>files := fs3\<rparr>)
            | WheelFileName # _ \<Rightarrow>
                (case build_layer e M (case event ''CustomLayerName'' of None \<Rightarrow> [] | Some c \<Rightarrow> c)
                        WheelFileName (w\<lparr>files := fs3\<rparr>) of
                   Inl result \<Rightarrow> result
                 | Inr b \<Rightarrow> publish_layer e M b))"
proof
  show "endswith (lower file) ''.whl'' \<longleftrightarrow>
           (\<exists>stem a b c. file = stem @ [CHR ''.'', a, b, c]
              \<and> a \<in> {CHR ''w'', CHR ''W''} \<and> b \<in> {CHR ''h'', CHR ''H''} \<and> c \<in> {CHR ''l'', CHR ''L''})"
    by (rule endswith_whl)
next
  show "lambda_handler e event w =
           (case filter (\<lambda>f. endswith (lower f) ''.whl'') listing of
              [] \<Rightarrow> (Returned \<lparr>StatusCode = 404, FunctionError = Some ''ResourceNotFoundException'',
                                 Payload = ''pip was not able to download a wheel file for '' @ M\<rparr>,
                     w\<lparr>files := fs3\<rparr>)
            | WheelFileName # _ \<Rightarrow>
                (case build_layer e M (case event ''CustomLayerName'' of None \<Rightarrow> [] | Some c \<Rightarrow> c)
                        WheelFileName (w\<lparr>files := fs3\<rparr>) of
                   Inl result \<Rightarrow> result
                 | Inr b \<Rightarrow> publish_layer e M b))"
  proof (cases "filter (\<lambda>f. endswith (lower f) ''.whl'') listing")
    case Nil
    then have "find_wheel listing = []"
      by (simp add: find_wheel_filter)
    then show ?thesis
      using Nil download_wheel_after_pip [where event = event and e = e and w = w, OF assms(1-4)] assms(5,6)
      by (simp add: lambda_handler_def not_found_def)
  next
    case (Cons f rest)
    then have fw: "find_wheel listing = f"
      by (simp add: find_wheel_filter)
    from Cons have "f \<in> set (filter (\<lambda>f. endswith (lower f) ''.whl'') listing)"
      by simp
    then have "f \<noteq> []"
      using wheel_name_nonempty by simp
    then show ?thesis
      using Cons fw download_wheel_after_pip [where event = event and e = e and w = w, OF assms(1-4)] assms(5,6)
      by (simp add: lambda_handler_def)
  qed
qed

text \<open>The runs with several files in the download directory, step by step.\<close>


lemmas pip_files_defs = sdist_env_def mixed_env_def pip_delivers_files_def example_env_def
  example_world_def example_event_def TmpModuleFolderName_def TmpPipCacheFolderName_def
  prepared_files_def sdist_files_def mixed_files_def

lemma example_prepare:
  "make_scratch_dir (files example_world) (TmpModuleFolderName ''examplepkg'')
     = Inr [(''/tmp'', Dir), (''/tmp/LayerModule_examplepkg'', Dir)]"
  "make_scratch_dir [(''/tmp'', Dir), (''/tmp/LayerModule_examplepkg'', Dir)] TmpPipCacheFolderName
     = Inr prepared_files"
  by (simp_all add: pip_files_defs os_defs)

lemma mixed_pip:
  "run_pip mixed_env ''examplepkg'' (TmpModuleFolderName ''examplepkg'') TmpPipCacheFolderName prepared_files
     = (\<lparr>returncode = 0, stdout_str = [], stderr_str = []\<rparr>, mixed_files)"
  by (simp add: pip_files_defs store_def norm_path_def)

lemma mixed_listing:
  "os_listdir mixed_files (TmpModuleFolderName ''examplepkg'')
     = Inr [''examplepkg-1.2.3.tar.gz'', ''EXAMPLEPKG-1.2.3-py3-none-any.WHL'',
            ''other-0.1-py3-none-any.whl'']"
  by (simp add: pip_files_defs os_defs)

lemma sdist_pip:
  "run_pip sdist_env ''examplepkg'' (TmpModuleFolderName ''examplepkg'') TmpPipCacheFolderName prepared_files
     = (\<lparr>returncode = 0, stdout_str = [], stderr_str = []\<rparr>, sdist_files)"
  by (simp add: pip_files_defs store_def norm_path_def)

lemma sdist_listing:
  "os_listdir sdist_files (TmpModuleFolderName ''examplepkg'') = Inr [''examplepkg-1.2.3.tar.gz'']"
  by (simp add: pip_files_defs os_defs)

theorem C10_wheel_selection_witness:
  "lambda_handler mixed_env example_event example_world
     = (case build_layer mixed_env ''examplepkg'' [] ''EXAMPLEPKG-1.2.3-py3-none-any.WHL''
               (example_world\<lparr>files := mixed_files\<rparr>) of
          Inl result \<Rightarrow> result
        | Inr b \<Rightarrow> publish_layer mixed_env ''examplepkg'' b)
   \<and> lambda_handler sdist_env example_event example_world
     = (Returned \<lparr>StatusCode = 404, FunctionError = Some ''ResourceNotFoundException'',
                  Payload = ''pip was not able to download a wheel file for examplepkg''\<rparr>,
        example_world\<lparr>files := sdist_files\<rparr>)"
proof (rule conjI)
  have m: "example_event ''ModuleName'' = Some ''examplepkg''"
    and c: "example_event ''CustomLayerName'' = None"
    by (simp_all add: example_event_def)
  have r: "returncode \<lparr>returncode = 0, stdout_str = [], stderr_str = []\<rparr> = 0"
    by simp
  from C10_wheel_selection [where event = example_event and e = mixed_env and w = example_world,
      OF m example_prepare mixed_pip r mixed_listing] c
  show "lambda_handler mixed_env example_event example_world
     = (case build_layer mixed_env ''examplepkg'' [] ''EXAMPLEPKG-1.2.3-py3-none-any.WHL''
               (example_world\<lparr>files := mixed_files\<rparr>) of
          Inl result \<Rightarrow> result
        | Inr b \<Rightarrow> publish_layer mixed_env ''examplepkg'' b)"
    by (simp add: str_defs)
  from C10_wheel_selection [where event = example_event and e = sdist_env and w = example_world,
      OF m example_prepare sdist_pip r sdist_listing]
  show "lambda_handler sdist_env example_event example_world
     = (Returned \<lparr>StatusCode = 404, FunctionError = Some ''ResourceNotFoundException'',
                  Payload = ''pip was not able to download a wheel file for examplepkg''\<rparr>,
        example_world\<lparr>files := sdist_files\<rparr>)"
    by (simp add: str_defs)
qed

subsection \<open>The not-found responses\<close>

lemma find_wheel_empty_iff:
  "find_wheel listing = [] \<longleftrightarrow> (\<forall>f\<in>set listing. \<not> endswith (lower f) ''.whl'')"
proof (induction listing)
  case Nil
  show ?case by simp
next
  case (Cons f rest)
  then show ?case
    using wheel_name_nonempty [of f] by auto
qed

lemma publish_layer_status:
  assumes "fst (publish_layer e M b) = Returned r"
  shows "StatusCode r = 500 \<or> StatusCode r = 200"
  using assms
  by (auto simp: publish_layer_def service_exception_def created_def
      split: prod.splits option.splits sum.splits)

lemma lambda_handler_404:
  assumes "fst (lambda_handler e event w) = Returned r" and "StatusCode r = 404"
  shows "\<exists>w'. download_wheel e event w = Inl (Returned r, w')"
proof (cases "download_wheel e event w")
  case (Inl res)
  with assms(1) show ?thesis
    by (cases res) (simp add: lambda_handler_def)
next
  case (Inr t)
  obtain M C W w1 where t: "t = (M, C, W, w1)"
    by (cases t) auto
  show ?thesis
  proof (cases "build_layer e M C W w1")
    case (Inl res)
    obtain out w' where "res = (out, w')"
      by (cases res) auto
    with Inl build_layer_Inl [of e M C W w1 out w'] obtain err where "res = (Raised err, w')"
      by auto
    with Inl Inr t assms(1) show ?thesis
      by (simp add: lambda_handler_def)
  next
    case (Inr b)
    with \<open>download_wheel e event w = Inr t\<close> t assms(1)
    have "fst (publish_layer e M b) = Returned r"
      by (simp add: lambda_handler_def)
    from publish_layer_status [OF this] assms(2) show ?thesis
      by simp
  qed
qed

lemma download_wheel_Returned:
  assumes "download_wheel e event w = Inl (Returned r, w')"
  shows "(event ''ModuleName'' = None
            \<and> r = not_found (''No argument for ModuleName was provided in the context name: ''
                             @ backslash_n @ ''Error: '' @ quoted ''ModuleName''))
       \<or> (\<exists>M fs1 fs2 out fs3.
             event ''ModuleName'' = Some M
           \<and> make_scratch_dir (files w) (TmpModuleFolderName M) = Inr fs1
           \<and> make_scratch_dir fs1 TmpPipCacheFolderName = Inr fs2
           \<and> run_pip e M (TmpModuleFolderName M) TmpPipCacheFolderName fs2 = (out, fs3)
           \<and> (returncode out \<noteq> 0
                  \<and> r = not_found (''pip was not able to find a module for '' @ M
                                   @ backslash_n @ ''Error:'' @ stderr_str out)
              \<or> returncode out = 0
                  \<and> (\<exists>listing. os_listdir fs3 (TmpModuleFolderName M) = Inr listing
                        \<and> (\<forall>f\<in>set listing. \<not> endswith (lower f) ''.whl''))
                  \<and> r = not_found (''pip was not able to download a wheel file for '' @ M)))"
proof (cases "event ''ModuleName''")
  case None
  with assms show ?thesis
    by (simp add: download_wheel_def)
next
  case (Some M)
  show ?thesis
  proof (cases "make_scratch_dir (files w) (TmpModuleFolderName M)")
    case (Inl err)
    with Some assms show ?thesis
      by (simp add: download_wheel_def)
  next
    case (Inr fs1)
    note fs1 = this
    show ?thesis
    proof (cases "make_scratch_dir fs1 TmpPipCacheFolderName")
      case (Inl err)
      with Some fs1 assms show ?thesis
        by (simp add: download_wheel_def)
    next
      case (Inr fs2)
      obtain out fs3 where p: "run_pip e M (TmpModuleFolderName M) TmpPipCacheFolderName fs2 = (out, fs3)"
        by (cases "run_pip e M (TmpModuleFolderName M) TmpPipCacheFolderName fs2") auto
      note d = download_wheel_after_pip [where event = event and e = e and w = w, OF Some fs1 Inr p]
      show ?thesis
      proof (cases "returncode out = 0")
        case False
        with d assms have "r = not_found (''pip was not able to find a module for '' @ M
                                   @ backslash_n @ ''Error:'' @ stderr_str out)"
          by simp
        with False Some fs1 Inr p show ?thesis
          by blast
      next
        case True
        show ?thesis
        proof (cases "os_listdir fs3 (TmpModuleFolderName M)")
          case (Inl err)
          with d True assms show ?thesis
            by simp
        next
          case (Inr listing)
          with d True assms have "find_wheel listing = []"
            and "r = not_found (''pip was not able to download a wheel file for '' @ M)"
            by (simp_all split: if_splits)
          with True Some fs1 \<open>make_scratch_dir fs1 TmpPipCacheFolderName = Inr fs2\<close> p Inr
          show ?thesis
            unfolding find_wheel_empty_iff by blast
        qed
      qed
    qed
  qed
qed


text \<open>
  Claim C5. The handler returns status code 404 with the error kind
  \<open>ResourceNotFoundException\<close> when the event has no \<open>ModuleName\<close>, when pip exits with a
  status other than 0, and when pip exits with 0 but no wheel file is listed in the
  download directory; each time the payload names what went wrong. An empty module
  name is handed to pip as it is and meets the second case when pip refuses it (an
  empty requirement is invalid for pip, which exits with status 1). Conversely, a
  return with status code 404 carries that error kind and happens only in one of the
  three cases. The second and third case are stated for a file system in which both
  scratch directories can be prepared.
\<close>

theorem C5_not_found:
  "(event ''ModuleName'' = None \<longrightarrow>
      lambda_handler e event w
        = (Returned \<lparr>StatusCode = 404, FunctionError = Some ''ResourceNotFoundException'',
                     Payload = ''No argument for ModuleName was provided in the context name: ''
                               @ backslash_n @ ''Error: '' @ quoted ''ModuleName''\<rparr>, w))
   \<and> (event ''ModuleName'' = Some M
        \<and> make_scratch_dir (files w) (TmpModuleFolderName M) = Inr fs1
        \<and> make_scratch_dir fs1 TmpPipCacheFolderName = Inr fs2
        \<and> run_pip e M (TmpModuleFolderName M) TmpPipCacheFolderName fs2 = (out, fs3)
        \<and> returncode out \<noteq> 0 \<longrightarrow>
      lambda_handler e event w
        = (Returned \<lparr>StatusCode = 404, FunctionError = Some ''ResourceNotFoundException'',
                     Payload = ''pip was not able to find a module for '' @ M
                               @ backslash_n @ ''Error:'' @ stderr_str out\<rparr>,
           w\<lparr>files := fs3\<rparr>))
   \<and> (event ''ModuleName'' = Some M
        \<and> make_scratch_dir (files w) (TmpModuleFolderName M) = Inr fs1
        \<and> make_scratch_dir fs1 TmpPipCacheFolderName = Inr fs2
        \<and> run_pip e M (TmpModuleFolderName M) TmpPipCacheFolderName fs2 = (out, fs3)
        \<and> returncode out = 0
        \<and> os_listdir fs3 (TmpModuleFolderName M) = Inr listing
        \<and> (\<forall>f\<in>set listing. \<not> endswith (lower f) ''.whl'') \<longrightarrow>
      lambda_handler e event w
        = (Returned \<lparr>StatusCode = 404, FunctionError = Some ''ResourceNotFoundException'',
                     Payload = ''pip was not able to download a wheel file for '' @ M\<rparr>,
           w\<lparr>files := fs3\<rparr>))
   \<and> (fst (lambda_handler e event w) = Returned r \<and> StatusCode r = 404 \<longrightarrow>
        FunctionError r = Some ''ResourceNotFoundException''
        \<and> (event ''ModuleName'' = None
           \<or> (\<exists>N gs1 gs2 res gs3.
                 event ''ModuleName'' = Some N
               \<and> make_scratch_dir (files w) (TmpModuleFolderName N) = Inr gs1
               \<and> make_scratch_dir gs1 TmpPipCacheFolderName = Inr gs2
               \<and> run_pip e N (TmpModuleFolderName N) TmpPipCacheFolderName gs2 = (res, gs3)
               \<and> (returncode res \<noteq> 0
                  \<or> returncode res = 0
                      \<and> (\<exists>names. os_listdir gs3 (TmpModuleFolderName N) = Inr names
                            \<and> (\<forall>f\<in>set names. \<not> endswith (lower f) ''.whl''))))))"
proof (intro conjI impI)
  assume "event ''ModuleName'' = None"
  then show "lambda_handler e event w
        = (Returned \<lparr>StatusCode = 404, FunctionError = Some ''ResourceNotFoundException'',
                     Payload = ''No argument for ModuleName was provided in the context name: ''
                               @ backslash_n @ ''Error: '' @ quoted ''ModuleName''\<rparr>, w)"
    by (simp add: lambda_handler_def download_wheel_def not_found_def)
next
  assume a: "event ''ModuleName'' = Some M
        \<and> make_scratch_dir (files w) (TmpModuleFolderName M) = Inr fs1
        \<and> make_scratch_dir fs1 TmpPipCacheFolderName = Inr fs2
        \<and> run_pip e M (TmpModuleFolderName M) TmpPipCacheFolderName fs2 = (out, fs3)
        \<and> returncode out \<noteq> 0"
  then have "download_wheel e event w
      = Inl (Returned (not_found (''pip was not able to find a module for '' @ M
                                   @ backslash_n @ ''Error:'' @ stderr_str out)),
             w\<lparr>files := fs3\<rparr>)"
    using download_wheel_after_pip [where event = event and e = e and w = w and M = M
        and ?fs1.0 = fs1 and ?fs2.0 = fs2 and out = out and ?fs3.0 = fs3]
    by simp
  then show "lambda_handler e event w
        = (Returned \<lparr>StatusCode = 404, FunctionError = Some ''ResourceNotFoundException'',
                     Payload = ''pip was not able to find a module for '' @ M
                               @ backslash_n @ ''Error:'' @ stderr_str out\<rparr>,
           w\<lparr>files := fs3\<rparr>)"
    by (simp add: lambda_handler_def not_found_def)
next
  assume a: "event ''ModuleName'' = Some M
        \<and> make_scratch_dir (files w) (TmpModuleFolderName M) = Inr fs1
        \<and> make_scratch_dir fs1 TmpPipCacheFolderName = Inr fs2
        \<and> run_pip e M (TmpModuleFolderName M) TmpPipCacheFolderName fs2 = (out, fs3)
        \<and> returncode out = 0
        \<and> os_listdir fs3 (TmpModuleFolderName M) = Inr listing
        \<and> (\<forall>f\<in>set listing. \<not> endswith (lower f) ''.whl'')"
  then have "find_wheel listing = []"
    by (simp add: find_wheel_empty_iff)
  with a have "download_wheel e event w
      = Inl (Returned (not_found (''pip was not able to download a wheel file for '' @ M)),
             w\<lparr>files := fs3\<rparr>)"
    using download_wheel_after_pip [where event = event and e = e and w = w and M = M
        and ?fs1.0 = fs1 and ?fs2.0 = fs2 and out = out and ?fs3.0 = fs3]
    by simp
  then show "lambda_handler e event w
        = (Returned \<lparr>StatusCode = 404, FunctionError = Some ''ResourceNotFoundException'',
                     Payload = ''pip was not able to download a wheel file for '' @ M\<rparr>,
           w\<lparr>files := fs3\<rparr>)"
    by (simp add: lambda_handler_def not_found_def)
next
  assume a: "fst (lambda_handler e event w) = Returned r \<and> StatusCode r = 404"
  then obtain w' where d: "download_wheel e event w = Inl (Returned r, w')"
    using lambda_handler_404 by blast
  from download_wheel_Returned [OF d]
  show "FunctionError r = Some ''ResourceNotFoundException''"
    by (auto simp: not_found_def)
  from download_wheel_Returned [OF d]
  show "event ''ModuleName'' = None
           \<or> (\<exists>N gs1 gs2 res gs3.
                 event ''ModuleName'' = Some N
               \<and> make_scratch_dir (files w) (TmpModuleFolderName N) = Inr gs1
               \<and> make_scratch_dir gs1 TmpPipCacheFolderName = Inr gs2
               \<and> run_pip e N (TmpModuleFolderName N) TmpPipCacheFolderName gs2 = (res, gs3)
               \<and> (returncode res \<noteq> 0
                  \<or> returncode res = 0
                      \<and> (\<exists>names. os_listdir gs3 (TmpModuleFolderName N) = Inr names
                            \<and> (\<forall>f\<in>set names. \<not> endswith (lower f) ''.whl''))))"
    by blast
qed

text \<open>
  The four parts at concrete runs on a fresh \<open>/tmp\<close>: an event without \<open>ModuleName\<close>; the
  empty module name with a pip that refuses it; \<open>examplepkg\<close> with a pip that leaves only
  a source tarball; and, for the second run, the case the status code 404 comes from.
\<close>

lemma empty_name_prepare:
  "make_scratch_dir (files example_world) (TmpModuleFolderName [])
     = Inr [(''/tmp'', Dir), (''/tmp/LayerModule_'', Dir)]"
  "make_scratch_dir [(''/tmp'', Dir), (''/tmp/LayerModule_'', Dir)] TmpPipCacheFolderName
     = Inr [(''/tmp'', Dir), (''/tmp/LayerModule_'', Dir), (''/tmp/pipcachedir'', Dir)]"
  by (simp_all add: example_world_def TmpModuleFolderName_def TmpPipCacheFolderName_def os_defs)

lemma empty_name_pip:
  "run_pip rejecting_env [] (TmpModuleFolderName []) TmpPipCacheFolderName fs
     = (\<lparr>returncode = 1, stdout_str = [], stderr_str = ''ERROR: Invalid requirement''\<rparr>, fs)"
  by (simp add: rejecting_env_def pip_rejects_def)

theorem C5_not_found_witness:
  "lambda_handler example_env Map.empty example_world
     = (Returned \<lparr>StatusCode = 404, FunctionError = Some ''ResourceNotFoundException'',
                  Payload = ''No argument for ModuleName was provided in the context name: ''
                            @ backslash_n @ ''Error: '' @ quoted ''ModuleName''\<rparr>, example_world)
   \<and> lambda_handler rejecting_env [''ModuleName'' \<mapsto> []] example_world
     = (Returned \<lparr>StatusCode = 404, FunctionError = Some ''ResourceNotFoundException'',
                  Payload = ''pip was not able to find a module for '' @ backslash_n
                            @ ''Error:ERROR: Invalid requirement''\<rparr>,
        example_world\<lparr>files := [(''/tmp'', Dir), (''/tmp/LayerModule_'', Dir),
                                 (''/tmp/pipcachedir'', Dir)]\<rparr>)
   \<and> lambda_handler sdist_env example_event example_world
     = (Returned \<lparr>StatusCode = 404, FunctionError = Some ''ResourceNotFoundException'',
                  Payload = ''pip was not able to download a wheel file for examplepkg''\<rparr>,
        example_world\<lparr>files := sdist_files\<rparr>)
   \<and> (\<exists>N gs1 gs2 res gs3.
         [''ModuleName'' \<mapsto> []] ''ModuleName'' = Some N
       \<and> make_scratch_dir (files example_world) (TmpModuleFolderName N) = Inr gs1
       \<and> make_scratch_dir gs1 TmpPipCacheFolderName = Inr gs2
       \<and> run_pip rejecting_env N (TmpModuleFolderName N) TmpPipCacheFolderName gs2 = (res, gs3)
       \<and> (returncode res \<noteq> 0
          \<or> returncode res = 0
              \<and> (\<exists>names. os_listdir gs3 (TmpModuleFolderName N) = Inr names
                    \<and> (\<forall>f\<in>set names. \<not> endswith (lower f) ''.whl''))))"
proof (intro conjI)
  show "lambda_handler example_env Map.empty example_world
     = (Returned \<lparr>StatusCode = 404, FunctionError = Some ''ResourceNotFoundException'',
                  Payload = ''No argument for ModuleName was provided in the context name: ''
                            @ backslash_n @ ''Error: '' @ quoted ''ModuleName''\<rparr>, example_world)"
    using C5_not_found [where event = Map.empty and e = example_env and w = example_world]
    by simp
  have rejected: "lambda_handler rejecting_env [''ModuleName'' \<mapsto> []] example_world
     = (Returned \<lparr>StatusCode = 404, FunctionError = Some ''ResourceNotFoundException'',
                  Payload = ''pip was not able to find a module for '' @ backslash_n
                            @ ''Error:ERROR: Invalid requirement''\<rparr>,
        example_world\<lparr>files := [(''/tmp'', Dir), (''/tmp/LayerModule_'', Dir),
                                 (''/tmp/pipcachedir'', Dir)]\<rparr>)"
    using C5_not_found [where event = "[''ModuleName'' \<mapsto> []]" and e = rejecting_env
        and w = example_world and M = "[]"
        and ?fs1.0 = "[(''/tmp'', Dir), (''/tmp/LayerModule_'', Dir)]"
        and ?fs2.0 = "[(''/tmp'', Dir), (''/tmp/LayerModule_'', Dir), (''/tmp/pipcachedir'', Dir)]"
        and out = "\<lparr>returncode = 1, stdout_str = [], stderr_str = ''ERROR: Invalid requirement''\<rparr>"
        and ?fs3.0 = "[(''/tmp'', Dir), (''/tmp/LayerModule_'', Dir), (''/tmp/pipcachedir'', Dir)]"]
      empty_name_prepare empty_name_pip
    by simp
  then show "lambda_handler rejecting_env [''ModuleName'' \<mapsto> []] example_world
     = (Returned \<lparr>StatusCode = 404, FunctionError = Some ''ResourceNotFoundException'',
                  Payload = ''pip was not able to find a module for '' @ backslash_n
                            @ ''Error:ERROR: Invalid requirement''\<rparr>,
        example_world\<lparr>files := [(''/tmp'', Dir), (''/tmp/LayerModule_'', Dir),
                                 (''/tmp/pipcachedir'', Dir)]\<rparr>)" .
  show "lambda_handler sdist_env example_event example_world
     = (Returned \<lparr>StatusCode = 404, FunctionError = Some ''ResourceNotFoundException'',
                  Payload = ''pip was not able to download a wheel file for examplepkg''\<rparr>,
        example_world\<lparr>files := sdist_files\<rparr>)"
    using C5_not_found [where event = example_event and e = sdist_env and w = example_world
        and M = "''examplepkg''"
        and ?fs1.0 = "[(''/tmp'', Dir), (''/tmp/LayerModule_examplepkg'', Dir)]"
        and ?fs2.0 = prepared_files
        and out = "\<lparr>returncode = 0, stdout_str = [], stderr_str = []\<rparr>"
        and ?fs3.0 = sdist_files and listing = "[''examplepkg-1.2.3.tar.gz'']"]
      example_prepare sdist_pip sdist_listing
    by (simp add: example_event_def str_defs)
  show "\<exists>N gs1 gs2 res gs3.
         [''ModuleName'' \<mapsto> []] ''ModuleName'' = Some N
       \<and> make_scratch_dir (files example_world) (TmpModuleFolderName N) = Inr gs1
       \<and> make_scratch_dir gs1 TmpPipCacheFolderName = Inr gs2
       \<and> run_pip rejecting_env N (TmpModuleFolderName N) TmpPipCacheFolderName gs2 = (res, gs3)
       \<and> (returncode res \<noteq> 0
          \<or> returncode res = 0
              \<and> (\<exists>names. os_listdir gs3 (TmpModuleFolderName N) = Inr names
                    \<and> (\<forall>f\<in>set names. \<not> endswith (lower f) ''.whl'')))"
    using C5_not_found [where event = "[''ModuleName'' \<mapsto> []]" and e = rejecting_env
        and w = example_world
        and r = "\<lparr>StatusCode = 404, FunctionError = Some ''ResourceNotFoundException'',
                  Payload = ''pip was not able to find a module for '' @ backslash_n
                            @ ''Error:ERROR: Invalid requirement''\<rparr>"]
      rejected
    by simp
qed

end
